theory Spec2Isabelle
  imports Main "HOL-Library.Word"
begin

unbundle bit_operations_syntax

section \<open>Data model of the media container (tsmf_media.c)\<close>

text \<open>
  The C structures are linked through pointers: samples hang off a stream through
  \<open>sample_queue_head\<close>, \<open>sample_queue_tail\<close> and \<open>next\<close>, streams off a
  presentation through \<open>stream_list_head\<close>, \<open>stream_list_tail\<close>,
  \<open>next\<close> and \<open>prev\<close>, presentations off the two static variables
  \<open>presentation_list_head\<close> and \<open>presentation_list_tail\<close>. Each chain is a
  list here, head first; appending behind the tail pointer is \<open>xs @ [x]\<close>. A pointer
  that may be \<open>NULL\<close> is an option. The back pointers \<open>sample->stream\<close> and
  \<open>stream->presentation\<close> are not fields: an operation that follows one takes the
  owner as an argument. The mutex has no field either: every operation is modelled as it
  runs alone.
\<close>

type_synonym uint8 = "8 word"
type_synonym uint32 = "32 word"
type_synonym uint64 = "64 word"

text \<open>A channel callback is an opaque handle; 0 is the null pointer.\<close>

type_synonym IWTSVirtualChannelCallback = nat

record TSMF_SAMPLE =
  sample_id :: uint32
  start_time :: uint64
  end_time :: uint64
  duration :: uint64
  data_size :: uint32
  data :: "uint8 list option"
  channel_callback :: IWTSVirtualChannelCallback

text \<open>
  \<open>ITSMFDecoder\<close> and \<open>ITSMFAudioDevice\<close> are structures of function pointers
  declared in headers that are not among the sources. Each is a record of the functions
  this file calls, over the private state of the implementation. \<open>GetDecodedData\<close>
  is tested against \<open>NULL\<close> before it is called, so it is an option.
\<close>

record 'd ITSMFDecoder =
  decoder_state :: 'd
  Decode :: "'d \<Rightarrow> uint8 list \<Rightarrow> uint32 \<Rightarrow> uint32 \<Rightarrow> int \<times> 'd"
  GetDecodedData :: "('d \<Rightarrow> (uint8 list option \<times> uint32) \<times> 'd) option"

record 's ITSMFAudioDevice =
  audio_state :: 's
  GetQueueLength :: "'s \<Rightarrow> int"
  Play :: "'s \<Rightarrow> uint8 list \<Rightarrow> uint32 \<Rightarrow> 's"
  Flush :: "'s \<Rightarrow> 's"

record 'd TSMF_STREAM =
  stream_id :: uint32
  decoder :: "'d ITSMFDecoder option"
  major_type :: int
  eos :: int
  width :: uint32
  height :: uint32
  sample_queue :: "TSMF_SAMPLE list"

text \<open>
  The fields \<open>eos\<close> and \<open>channel_callback\<close> of the presentation are named
  \<open>presentation_eos\<close> and \<open>presentation_channel_callback\<close>, apart from those of
  the stream and of the sample.
\<close>

record ('s, 'd) TSMF_PRESENTATION =
  presentation_id :: "uint8 list"
  thread_status :: int
  thread_exit :: int
  playback_time :: uint64
  audio :: "'s ITSMFAudioDevice option"
  audio_name :: "string option"
  audio_device :: "string option"
  sample_rate :: uint32
  channels :: uint32
  bits_per_sample :: uint32
  presentation_eos :: int
  last_x :: uint32
  last_y :: uint32
  last_width :: uint32
  last_height :: uint32
  output_x :: uint32
  output_y :: uint32
  output_width :: uint32
  output_height :: uint32
  presentation_channel_callback :: IWTSVirtualChannelCallback
  stream_list :: "'d TSMF_STREAM list"

text \<open>
  Modelled from the spec: tsmf_constants.h and tsmf_types.h are not among the sources.
  The media kinds of a stream are audio and video, two distinct case labels of the switch
  in \<open>tsmf_sample_playback\<close>; a presentation identifier is an opaque value of a fixed
  size.
\<close>

definition TSMF_MAJOR_TYPE_VIDEO :: int where
  "TSMF_MAJOR_TYPE_VIDEO = 1"

definition TSMF_MAJOR_TYPE_AUDIO :: int where
  "TSMF_MAJOR_TYPE_AUDIO = 2"

definition GUID_SIZE :: nat where
  "GUID_SIZE = 16"

section \<open>The sample queue of a stream\<close>

definition tsmf_stream_pop_sample ::
  "'d TSMF_STREAM \<Rightarrow> TSMF_SAMPLE option \<times> 'd TSMF_STREAM" where
  "tsmf_stream_pop_sample stream =
     (case sample_queue stream of
        [] \<Rightarrow> (None, stream)
      | sample # rest \<Rightarrow> (Some sample, stream\<lparr>sample_queue := rest\<rparr>))"

section \<open>The playback scheduler\<close>

text \<open>
  The head sample's start time, read as \<open>stream->sample_queue_head->start_time\<close>; the
  code reads it only on a stream whose queue is not empty.
\<close>

definition head_start_time :: "'d TSMF_STREAM \<Rightarrow> uint64" where
  "head_start_time stream = start_time (hd (sample_queue stream))"

text \<open>
  One round of the for loop of \<open>tsmf_presentation_pop_sample\<close>, at the stream of
  index \<open>i\<close>. The pair is \<open>has_pending_stream\<close> and \<open>earliest_stream\<close>, the
  latter as the index of the stream it points to.
\<close>

definition pop_sample_scan ::
  "'d TSMF_STREAM list \<Rightarrow> nat \<Rightarrow> int \<times> nat option \<Rightarrow> int \<times> nat option" where
  "pop_sample_scan streams i acc =
     (let stream = streams ! i;
          has_pending_stream =
            (if sample_queue stream = [] \<and> eos stream = 0 then 1 else fst acc);
          earliest_stream =
            (if sample_queue stream \<noteq> [] \<and>
                (case snd acc of
                   None \<Rightarrow> True
                 | Some e \<Rightarrow> head_start_time (streams ! e) > head_start_time stream)
             then Some i else snd acc)
      in (has_pending_stream, earliest_stream))"

definition pop_sample_loop :: "'d TSMF_STREAM list \<Rightarrow> int \<times> nat option" where
  "pop_sample_loop streams =
     fold (pop_sample_scan streams) [0..<length streams] (0, None)"

text \<open>\<open>tsmf_stream_pop_sample(earliest_stream)\<close>, on the stream of index \<open>i\<close>.\<close>

definition pop_from_stream ::
  "('s, 'd) TSMF_PRESENTATION \<Rightarrow> nat \<Rightarrow> TSMF_SAMPLE option \<times> ('s, 'd) TSMF_PRESENTATION" where
  "pop_from_stream presentation i =
     (let r = tsmf_stream_pop_sample (stream_list presentation ! i)
      in (fst r, presentation\<lparr>stream_list := (stream_list presentation)[i := snd r]\<rparr>))"

definition audio_queue_length :: "'s ITSMFAudioDevice \<Rightarrow> int" where
  "audio_queue_length dev = GetQueueLength dev (audio_state dev)"

definition pop_sample_select ::
  "('s, 'd) TSMF_PRESENTATION \<Rightarrow> int \<times> nat option \<Rightarrow>
   TSMF_SAMPLE option \<times> ('s, 'd) TSMF_PRESENTATION" where
  "pop_sample_select presentation scan =
     (case snd scan of
        None \<Rightarrow> (None, presentation)
      | Some e \<Rightarrow>
          if major_type (stream_list presentation ! e) = TSMF_MAJOR_TYPE_AUDIO then
            (if (case audio presentation of
                   None \<Rightarrow> True
                 | Some dev \<Rightarrow> audio_queue_length dev < 10)
             then pop_from_stream presentation e
             else (None, presentation))
          else if fst scan = 0 \<or> playback_time presentation = 0 \<or>
                  playback_time presentation \<ge> head_start_time (stream_list presentation ! e)
          then pop_from_stream presentation e
          else (None, presentation))"

definition advance_playback_time ::
  "TSMF_SAMPLE option \<times> ('s, 'd) TSMF_PRESENTATION \<Rightarrow>
   TSMF_SAMPLE option \<times> ('s, 'd) TSMF_PRESENTATION" where
  "advance_playback_time r =
     (case fst r of
        None \<Rightarrow> r
      | Some sample \<Rightarrow>
          if end_time sample > playback_time (snd r)
          then (fst r, (snd r)\<lparr>playback_time := end_time sample\<rparr>)
          else r)"

definition tsmf_presentation_pop_sample ::
  "('s, 'd) TSMF_PRESENTATION \<Rightarrow> TSMF_SAMPLE option \<times> ('s, 'd) TSMF_PRESENTATION" where
  "tsmf_presentation_pop_sample presentation =
     advance_playback_time
       (pop_sample_select presentation (pop_sample_loop (stream_list presentation)))"

text \<open>
  The scheduler run \<open>n\<close> times in a row, as the playback thread does; the samples it
  returns are dropped here, only the presentation is followed.
\<close>

fun scheduler_run :: "nat \<Rightarrow> ('s, 'd) TSMF_PRESENTATION \<Rightarrow> ('s, 'd) TSMF_PRESENTATION" where
  "scheduler_run 0 presentation = presentation"
| "scheduler_run (Suc n) presentation =
     scheduler_run n (snd (tsmf_presentation_pop_sample presentation))"

section \<open>The registry of presentations\<close>

text \<open>
  The registry is the chain behind \<open>presentation_list_head\<close>. A presentation that
  \<open>memset\<close> has cleared:
\<close>

definition presentation_zero :: "('s, 'd) TSMF_PRESENTATION" where
  "presentation_zero =
     \<lparr>presentation_id = replicate GUID_SIZE 0, thread_status = 0, thread_exit = 0,
      playback_time = 0, audio = None, audio_name = None, audio_device = None,
      sample_rate = 0, channels = 0, bits_per_sample = 0, presentation_eos = 0,
      last_x = 0, last_y = 0, last_width = 0, last_height = 0,
      output_x = 0, output_y = 0, output_width = 0, output_height = 0,
      presentation_channel_callback = 0, stream_list = []\<rparr>"

text \<open>\<open>memcmp(presentation->presentation_id, guid, GUID_SIZE) == 0\<close>\<close>

definition guid_equal :: "uint8 list \<Rightarrow> uint8 list \<Rightarrow> bool" where
  "guid_equal a b = (take GUID_SIZE a = take GUID_SIZE b)"

definition tsmf_presentation_find_by_id ::
  "('s, 'd) TSMF_PRESENTATION list \<Rightarrow> uint8 list \<Rightarrow> ('s, 'd) TSMF_PRESENTATION option" where
  "tsmf_presentation_find_by_id registry guid =
     find (\<lambda>presentation. guid_equal (presentation_id presentation) guid) registry"

text \<open>The result is the new presentation (or \<open>NULL\<close>) and the registry after the call.\<close>

definition tsmf_presentation_new ::
  "('s, 'd) TSMF_PRESENTATION list \<Rightarrow> uint8 list \<Rightarrow> IWTSVirtualChannelCallback \<Rightarrow>
   ('s, 'd) TSMF_PRESENTATION option \<times> ('s, 'd) TSMF_PRESENTATION list" where
  "tsmf_presentation_new registry guid pChannelCallback =
     (case tsmf_presentation_find_by_id registry guid of
        Some found \<Rightarrow> (None, registry)
      | None \<Rightarrow>
          (let presentation = presentation_zero
                 \<lparr>presentation_id := take GUID_SIZE guid,
                  presentation_channel_callback := pChannelCallback\<rparr>
           in (Some presentation, registry @ [presentation])))"

section \<open>Streams\<close>

definition stream_zero :: "'d TSMF_STREAM" where
  "stream_zero =
     \<lparr>stream_id = 0, decoder = None, major_type = 0, eos = 0, width = 0, height = 0,
      sample_queue = []\<rparr>"

definition tsmf_stream_find_by_id ::
  "('s, 'd) TSMF_PRESENTATION \<Rightarrow> uint32 \<Rightarrow> 'd TSMF_STREAM option" where
  "tsmf_stream_find_by_id presentation sid =
     find (\<lambda>stream. stream_id stream = sid) (stream_list presentation)"

definition tsmf_stream_new ::
  "('s, 'd) TSMF_PRESENTATION \<Rightarrow> uint32 \<Rightarrow>
   'd TSMF_STREAM option \<times> ('s, 'd) TSMF_PRESENTATION" where
  "tsmf_stream_new presentation sid =
     (case tsmf_stream_find_by_id presentation sid of
        Some found \<Rightarrow> (None, presentation)
      | None \<Rightarrow>
          (let stream = stream_zero\<lparr>stream_id := sid\<rparr>
           in (Some stream,
               presentation\<lparr>stream_list := stream_list presentation @ [stream]\<rparr>)))"

text \<open>\<open>tsmf_stream_end\<close> on the stream of index \<open>i\<close> of the presentation.\<close>

definition tsmf_stream_end ::
  "('s, 'd) TSMF_PRESENTATION \<Rightarrow> nat \<Rightarrow> ('s, 'd) TSMF_PRESENTATION" where
  "tsmf_stream_end presentation i =
     presentation
       \<lparr>stream_list := (stream_list presentation)[i := (stream_list presentation ! i)\<lparr>eos := 1\<rparr>],
        presentation_eos := 1\<rparr>"

text \<open>
  \<open>tsmf_stream_push_sample\<close> touches the stream only (the presentation gives the
  mutex). \<open>ret\<close> starts at 1 and is the result of \<open>Decode\<close> when a decoder is
  attached; the decoder keeps the state its calls leave.
\<close>

definition tsmf_stream_push_sample ::
  "'d TSMF_STREAM \<Rightarrow> IWTSVirtualChannelCallback \<Rightarrow> uint32 \<Rightarrow> uint64 \<Rightarrow> uint64 \<Rightarrow> uint64 \<Rightarrow>
   uint32 \<Rightarrow> uint32 \<Rightarrow> uint8 list \<Rightarrow> 'd TSMF_STREAM" where
  "tsmf_stream_push_sample stream pChannelCallback sid st et dur extensions n payload =
     (case decoder stream of
        None \<Rightarrow> stream
      | Some dec \<Rightarrow>
          (case Decode dec (decoder_state dec) payload n extensions of
             (ret, d1) \<Rightarrow>
               if ret \<noteq> 0 then stream\<lparr>decoder := Some (dec\<lparr>decoder_state := d1\<rparr>)\<rparr>
               else
                 (let sample = \<lparr>sample_id = sid, start_time = st, end_time = et,
                                 duration = dur, data_size = 0, data = None,
                                 channel_callback = pChannelCallback\<rparr>
                  in case GetDecodedData dec of
                       None \<Rightarrow>
                         stream\<lparr>decoder := Some (dec\<lparr>decoder_state := d1\<rparr>),
                                sample_queue := sample_queue stream @ [sample]\<rparr>
                     | Some get \<Rightarrow>
                         (case get d1 of
                            ((buf, len), d2) \<Rightarrow>
                              stream\<lparr>decoder := Some (dec\<lparr>decoder_state := d2\<rparr>),
                                     sample_queue := sample_queue stream @
                                       [sample\<lparr>data := buf, data_size := len\<rparr>]\<rparr>))))"

text \<open>The arguments of one call of \<open>tsmf_stream_push_sample\<close>, to write sequences of calls.\<close>

record push_call =
  call_callback :: IWTSVirtualChannelCallback
  call_sample_id :: uint32
  call_start_time :: uint64
  call_end_time :: uint64
  call_duration :: uint64
  call_extensions :: uint32
  call_data_size :: uint32
  call_data :: "uint8 list"

definition push_one :: "'d TSMF_STREAM \<Rightarrow> push_call \<Rightarrow> 'd TSMF_STREAM" where
  "push_one stream c =
     tsmf_stream_push_sample stream (call_callback c) (call_sample_id c) (call_start_time c)
       (call_end_time c) (call_duration c) (call_extensions c) (call_data_size c) (call_data c)"

text \<open>The value \<open>ret\<close> takes in the call: 1 without a decoder, else what \<open>Decode\<close> returns.\<close>

definition push_ret :: "'d TSMF_STREAM \<Rightarrow> push_call \<Rightarrow> int" where
  "push_ret stream c =
     (case decoder stream of
        None \<Rightarrow> 1
      | Some dec \<Rightarrow>
          fst (Decode dec (decoder_state dec) (call_data c) (call_data_size c) (call_extensions c)))"

fun push_all :: "'d TSMF_STREAM \<Rightarrow> push_call list \<Rightarrow> 'd TSMF_STREAM" where
  "push_all stream [] = stream"
| "push_all stream (c # cs) = push_all (push_one stream c) cs"

fun all_decoded :: "'d TSMF_STREAM \<Rightarrow> push_call list \<Rightarrow> bool" where
  "all_decoded stream [] = True"
| "all_decoded stream (c # cs) = (push_ret stream c = 0 \<and> all_decoded (push_one stream c) cs)"

text \<open>\<open>n\<close> calls of \<open>tsmf_stream_pop_sample\<close> in a row: what each returned, and the stream left.\<close>

fun pop_all :: "nat \<Rightarrow> 'd TSMF_STREAM \<Rightarrow> TSMF_SAMPLE option list \<times> 'd TSMF_STREAM" where
  "pop_all 0 stream = ([], stream)"
| "pop_all (Suc n) stream =
     (let r = tsmf_stream_pop_sample stream; rest = pop_all n (snd r)
      in (fst r # fst rest, snd rest))"

section \<open>Flush\<close>

text \<open>
  The while loop of \<open>tsmf_stream_flush\<close>: a sample is popped and freed as long as the
  queue has a head.
\<close>

function tsmf_stream_flush_loop :: "'d TSMF_STREAM \<Rightarrow> 'd TSMF_STREAM" where
  "tsmf_stream_flush_loop stream =
     (if sample_queue stream \<noteq> []
      then tsmf_stream_flush_loop (snd (tsmf_stream_pop_sample stream))
      else stream)"
  by pat_completeness auto
termination
  by (relation "measure (\<lambda>stream. length (sample_queue stream))")
     (auto simp: tsmf_stream_pop_sample_def split: list.splits)

declare tsmf_stream_flush_loop.simps [simp del]

definition tsmf_stream_flush :: "'d TSMF_STREAM \<Rightarrow> 'd TSMF_STREAM" where
  "tsmf_stream_flush stream = (tsmf_stream_flush_loop stream)\<lparr>eos := 0\<rparr>"

definition tsmf_presentation_flush ::
  "('s, 'd) TSMF_PRESENTATION \<Rightarrow> ('s, 'd) TSMF_PRESENTATION" where
  "tsmf_presentation_flush presentation =
     (let p1 = presentation\<lparr>stream_list := map tsmf_stream_flush (stream_list presentation)\<rparr>;
          p2 = (case audio p1 of
                  None \<Rightarrow> p1
                | Some dev \<Rightarrow>
                    p1\<lparr>audio := Some (dev\<lparr>audio_state := Flush dev (audio_state dev)\<rparr>)\<rparr>)
      in p2\<lparr>presentation_eos := 0\<rparr>)"

section \<open>Dispatch of a video sample\<close>

text \<open>
  Modelled from the spec: freerdp/constants_ui.h and tsmf_main.c (\<open>tsmf_push_event\<close>)
  are not among the sources. The two events are the region-redraw and the
  video-frame-ready notifications; \<open>notify(event)\<close> answers ok or fail, and on fail the
  caller releases the event. The transport is the sequence of events handed to
  \<open>tsmf_push_event\<close>, oldest first, each with the callback it went to, and the events
  the caller freed after a rejection. What the transport answers is the parameter
  \<open>answer\<close>.
\<close>

datatype RD_PIXFMT = RD_PIXFMT_I420

record RD_REDRAW_EVENT =
  redraw_x :: uint32
  redraw_y :: uint32
  redraw_width :: uint32
  redraw_height :: uint32

record RD_VIDEO_FRAME_EVENT =
  frame_data :: "uint8 list option"
  frame_size :: uint32
  frame_pixfmt :: RD_PIXFMT
  frame_width :: uint32
  frame_height :: uint32
  frame_x :: uint32
  frame_y :: uint32
  frame_w :: uint32
  frame_h :: uint32

datatype RD_EVENT = Redraw RD_REDRAW_EVENT | VideoFrame RD_VIDEO_FRAME_EVENT

record transport =
  notified :: "(IWTSVirtualChannelCallback \<times> RD_EVENT) list"
  released :: "RD_EVENT list"

definition tsmf_push_event ::
  "(IWTSVirtualChannelCallback \<Rightarrow> RD_EVENT \<Rightarrow> int) \<Rightarrow> transport \<Rightarrow>
   IWTSVirtualChannelCallback \<Rightarrow> RD_EVENT \<Rightarrow> int \<times> transport" where
  "tsmf_push_event answer t callback event =
     (answer callback event, t\<lparr>notified := notified t @ [(callback, event)]\<rparr>)"

text \<open>An event is pushed, and freed by the caller when the push is rejected.\<close>

definition push_or_free ::
  "(IWTSVirtualChannelCallback \<Rightarrow> RD_EVENT \<Rightarrow> int) \<Rightarrow> transport \<Rightarrow>
   IWTSVirtualChannelCallback \<Rightarrow> RD_EVENT \<Rightarrow> transport" where
  "push_or_free answer t callback event =
     (case tsmf_push_event answer t callback event of
        (ret, t1) \<Rightarrow> if ret \<noteq> 0 then t1\<lparr>released := released t1 @ [event]\<rparr> else t1)"

definition tsmf_presentation_restore_last_video_frame ::
  "(IWTSVirtualChannelCallback \<Rightarrow> RD_EVENT \<Rightarrow> int) \<Rightarrow>
   ('s, 'd) TSMF_PRESENTATION \<times> transport \<Rightarrow> ('s, 'd) TSMF_PRESENTATION \<times> transport" where
  "tsmf_presentation_restore_last_video_frame answer st =
     (let presentation = fst st in
      if last_width presentation \<noteq> 0 \<and> last_height presentation \<noteq> 0 then
        (let revent = \<lparr>redraw_x = last_x presentation, redraw_y = last_y presentation,
                       redraw_width = last_width presentation,
                       redraw_height = last_height presentation\<rparr>
         in (presentation\<lparr>last_x := 0, last_y := 0, last_width := 0, last_height := 0\<rparr>,
             push_or_free answer (snd st) (presentation_channel_callback presentation)
               (Redraw revent)))
      else st)"

text \<open>
  \<open>tsmf_sample_playback_video\<close>, for a sample of the stream \<open>stream\<close> of the
  presentation. The result is the presentation, the sample and the transport after the call.
\<close>

definition region_differs :: "('s, 'd) TSMF_PRESENTATION \<Rightarrow> bool" where
  "region_differs presentation =
     (last_x presentation \<noteq> output_x presentation \<or>
      last_y presentation \<noteq> output_y presentation \<or>
      last_width presentation \<noteq> output_width presentation \<or>
      last_height presentation \<noteq> output_height presentation)"

definition tsmf_sample_playback_video ::
  "(IWTSVirtualChannelCallback \<Rightarrow> RD_EVENT \<Rightarrow> int) \<Rightarrow> ('s, 'd) TSMF_PRESENTATION \<Rightarrow>
   'd TSMF_STREAM \<Rightarrow> TSMF_SAMPLE \<Rightarrow> transport \<Rightarrow>
   ('s, 'd) TSMF_PRESENTATION \<times> TSMF_SAMPLE \<times> transport" where
  "tsmf_sample_playback_video answer presentation stream sample t =
     (if data sample \<noteq> None then
        (let st1 = (if region_differs presentation
                    then tsmf_presentation_restore_last_video_frame answer (presentation, t)
                    else (presentation, t));
             p1 = fst st1;
             vevent = \<lparr>frame_data = data sample, frame_size = data_size sample,
                       frame_pixfmt = RD_PIXFMT_I420,
                       frame_width = width stream, frame_height = height stream,
                       frame_x = output_x p1, frame_y = output_y p1,
                       frame_w = output_width p1, frame_h = output_height p1\<rparr>;
             p2 = p1\<lparr>last_x := output_x p1, last_y := output_y p1,
                     last_width := output_width p1, last_height := output_height p1\<rparr>;
             sample1 = sample\<lparr>data := None, data_size := 0\<rparr>
         in (p2, sample1,
             push_or_free answer (snd st1) (channel_callback sample) (VideoFrame vevent)))
      else (presentation, sample, t))"

section \<open>The FFmpeg decoder (tsmf_ffmpeg.c)\<close>

text \<open>
  libavcodec is an external library. Its codec context, codec and frame are one opaque
  state \<open>'c\<close>, and the calls the decoder makes are the fields of \<open>avcodec\<close>:
  \<^item> \<open>avcodec_decode_video2\<close> takes the packet (data, size, flags) and answers
    \<open>len\<close> and \<open>decoded\<close>;
  \<^item> \<open>avpicture_get_size\<close> is the size of a picture of the context's format;
  \<^item> \<open>av_picture_copy\<close> is the bytes that \<open>avpicture_fill\<close> and
    \<open>av_picture_copy\<close> leave in the new buffer;
  \<^item> \<open>avcodec_decode_audio3\<close> takes the room left (\<open>frame_size\<close>) and the packet
    (data, size) and answers \<open>len\<close>, the new \<open>frame_size\<close> and the bytes written
    at \<open>dst\<close>.
  The code is modelled as compiled against libavcodec 52 or later (the \<open>#else\<close>
  branches). A buffer is the bytes written to it; \<open>malloc\<close> and \<open>realloc\<close>
  are taken to succeed, as the code does.
\<close>

record 'c avcodec =
  avcodec_decode_video2 :: "'c \<Rightarrow> uint8 list \<Rightarrow> uint32 \<Rightarrow> int \<Rightarrow> (int \<times> int) \<times> 'c"
  avpicture_get_size :: "'c \<Rightarrow> int"
  av_picture_copy :: "'c \<Rightarrow> uint8 list"
  avcodec_decode_audio3 :: "'c \<Rightarrow> int \<Rightarrow> uint8 list \<Rightarrow> uint32 \<Rightarrow> (int \<times> int \<times> uint8 list) \<times> 'c"

text \<open>
  The constants of libavcodec's headers that the decoder uses. The two media types are
  given in tsmf_ffmpeg.c itself for older versions of the library.
\<close>

definition AVMEDIA_TYPE_VIDEO :: int where
  "AVMEDIA_TYPE_VIDEO = 0"

definition AVMEDIA_TYPE_AUDIO :: int where
  "AVMEDIA_TYPE_AUDIO = 1"

definition AVCODEC_MAX_AUDIO_FRAME_SIZE :: uint32 where
  "AVCODEC_MAX_AUDIO_FRAME_SIZE = 192000"

definition FF_INPUT_BUFFER_PADDING_SIZE :: nat where
  "FF_INPUT_BUFFER_PADDING_SIZE = 8"

definition AV_PKT_FLAG_KEY :: int where
  "AV_PKT_FLAG_KEY = 1"

text \<open>
  Modelled from the spec: tsmf_constants.h is not among the sources.
  \<open>TSMM_SAMPLE_EXT_CLEANPOINT\<close> is one bit of the extension flags that come with a
  sample.
\<close>

definition TSMM_SAMPLE_EXT_CLEANPOINT :: uint32 where
  "TSMM_SAMPLE_EXT_CLEANPOINT = 1"

record 'c TSMFFFmpegDecoder =
  media_type :: int
  codec_id :: int
  codec_context :: 'c
  prepared :: int
  decoded_data :: "uint8 list option"
  decoded_size :: uint32
  decoded_size_max :: uint32

definition tsmf_ffmpeg_decode_video ::
  "'c avcodec \<Rightarrow> 'c TSMFFFmpegDecoder \<Rightarrow> uint8 list \<Rightarrow> uint32 \<Rightarrow> uint32 \<Rightarrow>
   int \<times> 'c TSMFFFmpegDecoder" where
  "tsmf_ffmpeg_decode_video lib mdecoder payload n extensions =
     (let flags = (if extensions AND TSMM_SAMPLE_EXT_CLEANPOINT \<noteq> 0
                   then AV_PKT_FLAG_KEY else 0)
      in case avcodec_decode_video2 lib (codec_context mdecoder) payload n flags of
           ((len, decoded), c1) \<Rightarrow>
             if len < 0 then (1, mdecoder\<lparr>codec_context := c1\<rparr>)
             else if decoded = 0 then (1, mdecoder\<lparr>codec_context := c1\<rparr>)
             else (0, mdecoder\<lparr>codec_context := c1,
                               decoded_size := word_of_int (avpicture_get_size lib c1),
                               decoded_data := Some (av_picture_copy lib c1)\<rparr>))"

text \<open>
  The block of the while loop of \<open>tsmf_ffmpeg_decode_audio\<close> that ensures enough space
  for decoding.
\<close>

definition ensure_space :: "'c TSMFFFmpegDecoder \<Rightarrow> 'c TSMFFFmpegDecoder" where
  "ensure_space mdecoder =
     (if decoded_size_max mdecoder - decoded_size mdecoder < AVCODEC_MAX_AUDIO_FRAME_SIZE
      then mdecoder\<lparr>decoded_size_max := decoded_size_max mdecoder * 2\<rparr>
      else mdecoder)"

text \<open>
  The while loop of \<open>tsmf_ffmpeg_decode_audio\<close>. \<open>src_size\<close> is the unsigned
  32-bit count the code keeps: \<open>src_size -= len\<close> wraps around when the library
  answers a \<open>len\<close> above it, and the loop goes on. \<open>src\<close> is the bytes of the padded
  input from the read position on, none once the position has left the buffer.
  \<open>dst\<close> is always the end of what has been written, so each answer of the library is
  appended. Nothing bounds the number of rounds, so the loop is a partial function:
  \<open>None\<close> is a loop that never ends.
\<close>

partial_function (option) decode_audio_loop ::
  "'c avcodec \<Rightarrow> 'c TSMFFFmpegDecoder \<Rightarrow> uint8 list \<Rightarrow> uint32 \<Rightarrow>
   'c TSMFFFmpegDecoder option" where
  "decode_audio_loop lib mdecoder src src_size =
     (if src_size = 0 then Some mdecoder
      else
        (let m1 = ensure_space mdecoder;
             room = sint (decoded_size_max m1 - decoded_size m1)
         in case avcodec_decode_audio3 lib (codec_context m1) room src src_size of
              ((len, got, out), c1) \<Rightarrow>
                if len \<le> 0 \<or> got \<le> 0 then Some (m1\<lparr>codec_context := c1\<rparr>)
                else decode_audio_loop lib
                       (m1\<lparr>codec_context := c1,
                           decoded_size := decoded_size m1 + word_of_int got,
                           decoded_data := map_option (\<lambda>buf. buf @ out) (decoded_data m1)\<rparr>)
                       (drop (nat len) src) (src_size - word_of_int len)))"

definition tsmf_ffmpeg_decode_audio ::
  "'c avcodec \<Rightarrow> 'c TSMFFFmpegDecoder \<Rightarrow> uint8 list \<Rightarrow> uint32 \<Rightarrow> uint32 \<Rightarrow>
   (int \<times> 'c TSMFFFmpegDecoder) option" where
  "tsmf_ffmpeg_decode_audio lib mdecoder payload n extensions =
     (let m0 = (if decoded_size_max mdecoder = 0
                then mdecoder\<lparr>decoded_size_max := AVCODEC_MAX_AUDIO_FRAME_SIZE\<rparr>
                else mdecoder);
          m1 = m0\<lparr>decoded_data := Some []\<rparr>;
          pad_data = take (unat n) payload @ replicate FF_INPUT_BUFFER_PADDING_SIZE 0
      in case decode_audio_loop lib m1 pad_data n of
           None \<Rightarrow> None
         | Some m2 \<Rightarrow>
             Some (0, if decoded_size m2 = 0 then m2\<lparr>decoded_data := None\<rparr> else m2))"

text \<open>\<open>None\<close> is a call that never returns; the video path always returns.\<close>

definition tsmf_ffmpeg_decode ::
  "'c avcodec \<Rightarrow> 'c TSMFFFmpegDecoder \<Rightarrow> uint8 list \<Rightarrow> uint32 \<Rightarrow> uint32 \<Rightarrow>
   (int \<times> 'c TSMFFFmpegDecoder) option" where
  "tsmf_ffmpeg_decode lib mdecoder payload n extensions =
     (let m0 = mdecoder\<lparr>decoded_data := None, decoded_size := 0\<rparr>
      in if media_type m0 = AVMEDIA_TYPE_VIDEO
         then Some (tsmf_ffmpeg_decode_video lib m0 payload n extensions)
         else if media_type m0 = AVMEDIA_TYPE_AUDIO
         then tsmf_ffmpeg_decode_audio lib m0 payload n extensions
         else Some (1, m0))"

text \<open>The result is the buffer returned, the size stored through \<open>size\<close>, and the decoder.\<close>

definition tsmf_ffmpeg_get_decoded_data ::
  "'c TSMFFFmpegDecoder \<Rightarrow> (uint8 list option \<times> uint32) \<times> 'c TSMFFFmpegDecoder" where
  "tsmf_ffmpeg_get_decoded_data mdecoder =
     ((decoded_data mdecoder, decoded_size mdecoder),
      mdecoder\<lparr>decoded_data := None, decoded_size := 0\<rparr>)"

section \<open>The selection policy in the words of the specification\<close>

text \<open>
  A stream is pending when its queue is empty and it has not reached end-of-stream. The
  earliest stream is, among the streams with a non-empty queue, the one whose head sample
  has the smallest start time, the first one scanned when several share it.
  \<open>earliest_among streams k i\<close> says so of the first \<open>k\<close> streams.
\<close>

definition pending_stream :: "'d TSMF_STREAM \<Rightarrow> bool" where
  "pending_stream stream = (sample_queue stream = [] \<and> eos stream = 0)"

definition earliest_among :: "'d TSMF_STREAM list \<Rightarrow> nat \<Rightarrow> nat \<Rightarrow> bool" where
  "earliest_among streams k i =
     (i < k \<and> sample_queue (streams ! i) \<noteq> [] \<and>
      (\<forall>j < k. sample_queue (streams ! j) \<noteq> [] \<longrightarrow>
         (if j < i then head_start_time (streams ! i) < head_start_time (streams ! j)
          else head_start_time (streams ! i) \<le> head_start_time (streams ! j))))"

definition is_earliest_stream :: "'d TSMF_STREAM list \<Rightarrow> nat \<Rightarrow> bool" where
  "is_earliest_stream streams i = earliest_among streams (length streams) i"

text \<open>What the scheduler returns when it pops the head of the stream of index \<open>i\<close>.\<close>

definition pops_head_of :: "('s, 'd) TSMF_PRESENTATION \<Rightarrow> nat \<Rightarrow> bool" where
  "pops_head_of presentation i =
     (fst (tsmf_presentation_pop_sample presentation) =
        Some (hd (sample_queue (stream_list presentation ! i))) \<and>
      stream_list (snd (tsmf_presentation_pop_sample presentation)) =
        (stream_list presentation)
          [i := (stream_list presentation ! i)
             \<lparr>sample_queue := tl (sample_queue (stream_list presentation ! i))\<rparr>])"

text \<open>Conditions (a), (b) and (c) of the selection policy, for the stream of index \<open>i\<close>.\<close>

definition video_eligible :: "('s, 'd) TSMF_PRESENTATION \<Rightarrow> nat \<Rightarrow> bool" where
  "video_eligible presentation i =
     (\<not> (\<exists>stream \<in> set (stream_list presentation). pending_stream stream) \<or>
      playback_time presentation = 0 \<or>
      head_start_time (stream_list presentation ! i) \<le> playback_time presentation)"

text \<open>
  What the library answers to the first call of \<open>avcodec_decode_audio3\<close> that
  \<open>tsmf_ffmpeg_decode\<close> makes on an audio payload: \<open>len\<close>, \<open>frame_size\<close> and
  the bytes written. The decoded size is 0 at that point and the input is the whole
  padded payload.
\<close>

definition first_audio_answer ::
  "'c avcodec \<Rightarrow> 'c TSMFFFmpegDecoder \<Rightarrow> uint8 list \<Rightarrow> uint32 \<Rightarrow> int \<times> int \<times> uint8 list" where
  "first_audio_answer lib mdecoder payload n =
     (let m1 = ensure_space
                 (mdecoder\<lparr>decoded_data := Some [], decoded_size := 0,
                            decoded_size_max :=
                              (if decoded_size_max mdecoder = 0 then AVCODEC_MAX_AUDIO_FRAME_SIZE
                               else decoded_size_max mdecoder)\<rparr>)
      in fst (avcodec_decode_audio3 lib (codec_context m1)
                (sint (decoded_size_max m1 - decoded_size m1))
                (take (unat n) payload @ replicate FF_INPUT_BUFFER_PADDING_SIZE 0) n))"

section \<open>Concrete presentations\<close>

text \<open>
  A sample, a stream, an audio sink whose state is the number of buffers it holds, and two
  stream lists: one where an audio stream is the earliest, one where a video stream waits
  for an audio stream that has nothing queued.
\<close>

definition demo_sample :: "uint32 \<Rightarrow> uint64 \<Rightarrow> uint64 \<Rightarrow> TSMF_SAMPLE" where
  "demo_sample sid st et =
     \<lparr>sample_id = sid, start_time = st, end_time = et, duration = et - st,
      data_size = 2, data = Some [1, 2], channel_callback = 1\<rparr>"

definition demo_stream :: "uint32 \<Rightarrow> int \<Rightarrow> int \<Rightarrow> TSMF_SAMPLE list \<Rightarrow> unit TSMF_STREAM" where
  "demo_stream sid kind e queue =
     \<lparr>stream_id = sid, decoder = None, major_type = kind, eos = e,
      width = 320, height = 240, sample_queue = queue\<rparr>"

definition sink_queue_length :: "int \<Rightarrow> int" where
  "sink_queue_length queued = queued"

definition sink_play :: "int \<Rightarrow> uint8 list \<Rightarrow> uint32 \<Rightarrow> int" where
  "sink_play queued buf len = queued + 1"

definition sink_flush :: "int \<Rightarrow> int" where
  "sink_flush queued = 0"

definition demo_sink :: "int \<Rightarrow> int ITSMFAudioDevice" where
  "demo_sink queued =
     \<lparr>audio_state = queued, GetQueueLength = sink_queue_length, Play = sink_play,
      Flush = sink_flush\<rparr>"

definition demo_presentation ::
  "int ITSMFAudioDevice option \<Rightarrow> uint64 \<Rightarrow> unit TSMF_STREAM list \<Rightarrow>
   (int, unit) TSMF_PRESENTATION" where
  "demo_presentation dev t streams =
     presentation_zero\<lparr>audio := dev, playback_time := t, stream_list := streams\<rparr>"

definition audio_first :: "unit TSMF_STREAM list" where
  "audio_first =
     [demo_stream 1 TSMF_MAJOR_TYPE_AUDIO 0 [demo_sample 1 0 50, demo_sample 3 50 100],
      demo_stream 2 TSMF_MAJOR_TYPE_VIDEO 0 [demo_sample 2 0 100]]"

definition video_waiting :: "unit TSMF_STREAM list" where
  "video_waiting =
     [demo_stream 2 TSMF_MAJOR_TYPE_VIDEO 0 [demo_sample 2 100 200],
      demo_stream 1 TSMF_MAJOR_TYPE_AUDIO 0 []]"

definition demo_guid :: "uint8 list" where
  "demo_guid = replicate GUID_SIZE 7"

definition demo_registry :: "(int, unit) TSMF_PRESENTATION list" where
  "demo_registry =
     [(demo_presentation None 0 audio_first)\<lparr>presentation_id := demo_guid\<rparr>]"

section \<open>Keys, events and concrete decoders\<close>

text \<open>
  What identifies a sample apart from its payload, and the same of a call of
  \<open>tsmf_stream_push_sample\<close>.
\<close>

definition sample_key ::
  "TSMF_SAMPLE \<Rightarrow> IWTSVirtualChannelCallback \<times> uint32 \<times> uint64 \<times> uint64 \<times> uint64" where
  "sample_key sample =
     (channel_callback sample, sample_id sample, start_time sample, end_time sample,
      duration sample)"

definition call_key ::
  "push_call \<Rightarrow> IWTSVirtualChannelCallback \<times> uint32 \<times> uint64 \<times> uint64 \<times> uint64" where
  "call_key c =
     (call_callback c, call_sample_id c, call_start_time c, call_end_time c, call_duration c)"

text \<open>
  A decoder that counts the units it has decoded and refuses an empty one, the same
  decoder without \<open>GetDecodedData\<close>, and a stream that owns a decoder.
\<close>

definition demo_decode :: "nat \<Rightarrow> uint8 list \<Rightarrow> uint32 \<Rightarrow> uint32 \<Rightarrow> int \<times> nat" where
  "demo_decode d payload n extensions = (if n = 0 then (1, d) else (0, Suc d))"

definition demo_get_decoded :: "nat \<Rightarrow> (uint8 list option \<times> uint32) \<times> nat" where
  "demo_get_decoded d = ((Some [of_nat d], 1), d)"

definition demo_decoder :: "nat ITSMFDecoder" where
  "demo_decoder =
     \<lparr>decoder_state = 0, Decode = demo_decode, GetDecodedData = Some demo_get_decoded\<rparr>"

definition decoder_without_get :: "nat ITSMFDecoder" where
  "decoder_without_get =
     \<lparr>decoder_state = 0, Decode = demo_decode, GetDecodedData = None\<rparr>"

definition decoding_stream :: "nat ITSMFDecoder \<Rightarrow> nat TSMF_STREAM" where
  "decoding_stream dec = stream_zero\<lparr>stream_id := 1, decoder := Some dec\<rparr>"

definition demo_call :: "uint32 \<Rightarrow> uint64 \<Rightarrow> push_call" where
  "demo_call sid st =
     \<lparr>call_callback = 1, call_sample_id = sid, call_start_time = st,
      call_end_time = st + 50, call_duration = 50, call_extensions = 0,
      call_data_size = 2, call_data = [1, 2]\<rparr>"

text \<open>A transport that accepts every event, and one that has seen none.\<close>

definition accept_all :: "IWTSVirtualChannelCallback \<Rightarrow> RD_EVENT \<Rightarrow> int" where
  "accept_all callback event = 0"

definition no_events :: transport where
  "no_events = \<lparr>notified = [], released = []\<rparr>"

text \<open>
  A presentation that has delivered no frame yet (its last region is all zero) and whose
  target region is 640 by 480 at the origin, and one that has delivered a frame to a
  region of 320 by 240.
\<close>

definition first_frame :: "(int, unit) TSMF_PRESENTATION" where
  "first_frame =
     presentation_zero\<lparr>output_width := 640, output_height := 480,
                       presentation_channel_callback := 1\<rparr>"

definition moved_frame :: "(int, unit) TSMF_PRESENTATION" where
  "moved_frame = first_frame\<lparr>last_width := 320, last_height := 240\<rparr>"

definition video_sample :: TSMF_SAMPLE where
  "video_sample =
     \<lparr>sample_id = 2, start_time = 0, end_time = 100, duration = 100,
      data_size = 2, data = Some [1, 2], channel_callback = 1\<rparr>"

definition video_stream :: "unit TSMF_STREAM" where
  "video_stream =
     \<lparr>stream_id = 2, decoder = None, major_type = TSMF_MAJOR_TYPE_VIDEO, eos = 0,
      width = 320, height = 240, sample_queue = []\<rparr>"

text \<open>The redraw of the last region and the frame for the target region.\<close>

definition redraw_event :: "('s, 'd) TSMF_PRESENTATION \<Rightarrow> RD_EVENT" where
  "redraw_event presentation =
     Redraw \<lparr>redraw_x = last_x presentation, redraw_y = last_y presentation,
             redraw_width = last_width presentation,
             redraw_height = last_height presentation\<rparr>"

definition frame_event ::
  "('s, 'd) TSMF_PRESENTATION \<Rightarrow> 'd TSMF_STREAM \<Rightarrow> TSMF_SAMPLE \<Rightarrow> RD_EVENT" where
  "frame_event presentation stream sample =
     VideoFrame \<lparr>frame_data = data sample, frame_size = data_size sample,
                 frame_pixfmt = RD_PIXFMT_I420,
                 frame_width = width stream, frame_height = height stream,
                 frame_x = output_x presentation, frame_y = output_y presentation,
                 frame_w = output_width presentation,
                 frame_h = output_height presentation\<rparr>"

text \<open>
  A library that decodes any video packet that is not empty into a picture of six bytes,
  and audio byte by byte.
\<close>

definition demo_decode_video :: "nat \<Rightarrow> uint8 list \<Rightarrow> uint32 \<Rightarrow> int \<Rightarrow> (int \<times> int) \<times> nat" where
  "demo_decode_video c payload n flags =
     (if n = 0 then ((- 1, 0), c) else ((uint n, 1), Suc c))"

definition demo_picture_size :: "nat \<Rightarrow> int" where
  "demo_picture_size c = 6"

definition demo_picture :: "nat \<Rightarrow> uint8 list" where
  "demo_picture c = [16, 16, 16, 16, 128, 128]"

text \<open>A byte 0 cannot be decoded; any other byte is consumed and gives two bytes.\<close>

definition demo_decode_audio ::
  "nat \<Rightarrow> int \<Rightarrow> uint8 list \<Rightarrow> uint32 \<Rightarrow> (int \<times> int \<times> uint8 list) \<times> nat" where
  "demo_decode_audio c room src n =
     (if hd src = 0 then ((- 1, 0, []), c) else ((1, 2, [hd src, hd src]), Suc c))"

definition demo_avcodec :: "nat avcodec" where
  "demo_avcodec =
     \<lparr>avcodec_decode_video2 = demo_decode_video, avpicture_get_size = demo_picture_size,
      av_picture_copy = demo_picture, avcodec_decode_audio3 = demo_decode_audio\<rparr>"

text \<open>
  A library that, given one byte of audio, reports two bytes consumed and two written,
  and rejects every other input.
\<close>

definition greedy_decode_audio ::
  "nat \<Rightarrow> int \<Rightarrow> uint8 list \<Rightarrow> uint32 \<Rightarrow> (int \<times> int \<times> uint8 list) \<times> nat" where
  "greedy_decode_audio c room src n =
     (if n = 1 then ((2, 2, [7, 7]), Suc c) else ((- 1, 0, []), c))"

definition greedy_avcodec :: "nat avcodec" where
  "greedy_avcodec =
     \<lparr>avcodec_decode_video2 = demo_decode_video, avpicture_get_size = demo_picture_size,
      av_picture_copy = demo_picture, avcodec_decode_audio3 = greedy_decode_audio\<rparr>"

definition demo_mdecoder :: "int \<Rightarrow> nat TSMFFFmpegDecoder" where
  "demo_mdecoder kind =
     \<lparr>media_type = kind, codec_id = 0, codec_context = 0, prepared = 1,
      decoded_data = None, decoded_size = 0, decoded_size_max = 0\<rparr>"

section \<open>Flush empties every queue\<close>

lemma tsmf_stream_flush_loop_empties:
  "tsmf_stream_flush_loop stream = stream\<lparr>sample_queue := []\<rparr>"
proof (induction stream rule: tsmf_stream_flush_loop.induct)
  case (1 stream)
  show ?case
  proof (cases "sample_queue stream")
    case Nil
    then show ?thesis by (subst tsmf_stream_flush_loop.simps) simp
  next
    case (Cons sample rest)
    then have "tsmf_stream_flush_loop stream =
        tsmf_stream_flush_loop (snd (tsmf_stream_pop_sample stream))"
      by (subst tsmf_stream_flush_loop.simps) simp
    also have "\<dots> = (snd (tsmf_stream_pop_sample stream))\<lparr>sample_queue := []\<rparr>"
      using Cons by (intro "1.IH") simp
    also have "\<dots> = stream\<lparr>sample_queue := []\<rparr>"
      using Cons by (simp add: tsmf_stream_pop_sample_def)
    finally show ?thesis .
  qed
qed

lemma tsmf_stream_flush_eq:
  "tsmf_stream_flush stream = stream\<lparr>sample_queue := [], eos := 0\<rparr>"
  by (simp add: tsmf_stream_flush_def tsmf_stream_flush_loop_empties)

lemma tsmf_stream_flush_idem:
  "tsmf_stream_flush (tsmf_stream_flush stream) = tsmf_stream_flush stream"
  by (simp add: tsmf_stream_flush_eq)

lemma stream_list_flush:
  "stream_list (tsmf_presentation_flush presentation) =
     map tsmf_stream_flush (stream_list presentation)"
  by (simp add: tsmf_presentation_flush_def Let_def split: option.splits)

lemma presentation_eos_flush:
  "presentation_eos (tsmf_presentation_flush presentation) = 0"
  by (simp add: tsmf_presentation_flush_def Let_def split: option.splits)

text \<open>
  Claim C8. Flush is total and idempotent: after one call of
  \<open>tsmf_presentation_flush\<close> every stream has an empty sample queue and a cleared
  \<open>eos\<close> flag; after a second call in a row the same holds, and the presentation
  after two calls is the presentation after one call in every field but the state of the
  audio sink, which has been flushed twice. The function is total: its loop is defined
  with a termination proof.
\<close>

theorem flush_idempotent:
  fixes presentation :: "('s, 'd) TSMF_PRESENTATION"
  shows
  "map sample_queue (stream_list (tsmf_presentation_flush presentation)) =
     replicate (length (stream_list presentation)) [] \<and>
   map eos (stream_list (tsmf_presentation_flush presentation)) =
     replicate (length (stream_list presentation)) 0 \<and>
   map sample_queue (stream_list (tsmf_presentation_flush (tsmf_presentation_flush presentation))) =
     replicate (length (stream_list presentation)) [] \<and>
   map eos (stream_list (tsmf_presentation_flush (tsmf_presentation_flush presentation))) =
     replicate (length (stream_list presentation)) 0 \<and>
   tsmf_presentation_flush (tsmf_presentation_flush presentation) =
     (tsmf_presentation_flush presentation)
       \<lparr>audio := audio (tsmf_presentation_flush (tsmf_presentation_flush presentation))\<rparr>"
proof -
  have q: "map sample_queue (map tsmf_stream_flush ss) = replicate (length ss) []"
    for ss :: "'d TSMF_STREAM list"
    by (induction ss) (simp_all add: tsmf_stream_flush_eq)
  have e: "map eos (map tsmf_stream_flush ss) = replicate (length ss) 0"
    for ss :: "'d TSMF_STREAM list"
    by (induction ss) (simp_all add: tsmf_stream_flush_eq)
  have i: "map tsmf_stream_flush (map tsmf_stream_flush ss) = map tsmf_stream_flush ss"
    for ss :: "'d TSMF_STREAM list"
    by (simp add: tsmf_stream_flush_idem)
  have c: "tsmf_stream_flush \<circ> tsmf_stream_flush =
      (tsmf_stream_flush :: 'd TSMF_STREAM \<Rightarrow> 'd TSMF_STREAM)"
    by (rule ext) (simp add: tsmf_stream_flush_idem)
  have twice: "tsmf_presentation_flush (tsmf_presentation_flush presentation) =
     (tsmf_presentation_flush presentation)
       \<lparr>audio := audio (tsmf_presentation_flush (tsmf_presentation_flush presentation))\<rparr>"
    by (cases "audio presentation")
       (auto simp: tsmf_presentation_flush_def tsmf_stream_flush_idem
          intro!: TSMF_PRESENTATION.equality)
  show ?thesis
    using q [of "stream_list presentation"] e [of "stream_list presentation"]
      q [of "map tsmf_stream_flush (stream_list presentation)"]
      e [of "map tsmf_stream_flush (stream_list presentation)"] twice
    by (simp add: stream_list_flush i)
qed

text \<open>
  Claim C10. Every call of \<open>tsmf_presentation_flush\<close> sets the presentation's own
  \<open>eos\<close> flag to 0 and clears the flag of every stream, also after
  \<open>tsmf_stream_end\<close> has set the flag of the presentation to 1.
\<close>

theorem flush_clears_presentation_eos:
  fixes presentation :: "('s, 'd) TSMF_PRESENTATION"
  shows
  "presentation_eos (tsmf_presentation_flush presentation) = 0 \<and>
   map eos (stream_list (tsmf_presentation_flush presentation)) =
     replicate (length (stream_list presentation)) 0 \<and>
   presentation_eos (tsmf_stream_end presentation i) = 1 \<and>
   presentation_eos (tsmf_presentation_flush (tsmf_stream_end presentation i)) = 0"
proof -
  have e: "map eos (map tsmf_stream_flush ss) = replicate (length ss) 0"
    for ss :: "'d TSMF_STREAM list"
    by (induction ss) (simp_all add: tsmf_stream_flush_eq)
  show ?thesis
    using e [of "stream_list presentation"]
    by (simp add: presentation_eos_flush stream_list_flush tsmf_stream_end_def)
qed

section \<open>The scheduler\<close>

subsection \<open>The scan finds the earliest stream and the pending ones\<close>

lemma earliest_among_unique:
  assumes "earliest_among streams k i" and "earliest_among streams k i'"
  shows "i = i'"
proof (rule ccontr)
  assume ne: "i \<noteq> i'"
  show False
  proof (cases "i < i'")
    case True
    from assms(2) True assms(1)
    have "head_start_time (streams ! i') < head_start_time (streams ! i)"
      by (auto simp: earliest_among_def)
    moreover from assms(1) True assms(2)
    have "head_start_time (streams ! i) \<le> head_start_time (streams ! i')"
      by (auto simp: earliest_among_def)
    ultimately show False by simp
  next
    case False
    with ne have lt: "i' < i" by simp
    from assms(1) lt assms(2)
    have "head_start_time (streams ! i) < head_start_time (streams ! i')"
      by (auto simp: earliest_among_def)
    moreover from assms(2) lt assms(1)
    have "head_start_time (streams ! i') \<le> head_start_time (streams ! i)"
      by (auto simp: earliest_among_def)
    ultimately show False by simp
  qed
qed

lemma earliest_among_Suc_new:
  assumes "sample_queue (streams ! k) \<noteq> []"
    and "earliest_among streams k e"
    and "head_start_time (streams ! k) < head_start_time (streams ! e)"
  shows "earliest_among streams (Suc k) k"
  unfolding earliest_among_def
proof (intro conjI allI impI)
  fix j assume j: "j < Suc k" and q: "sample_queue (streams ! j) \<noteq> []"
  show "if j < k then head_start_time (streams ! k) < head_start_time (streams ! j)
        else head_start_time (streams ! k) \<le> head_start_time (streams ! j)"
  proof (cases "j < k")
    case True
    with assms(2) q have "head_start_time (streams ! e) \<le> head_start_time (streams ! j)"
      by (auto simp: earliest_among_def split: if_splits)
    with assms(3) True show ?thesis by simp
  next
    case False
    with j have "j = k" by simp
    then show ?thesis by simp
  qed
qed (use assms in simp_all)

lemma earliest_among_Suc_first:
  assumes "sample_queue (streams ! k) \<noteq> []"
    and "\<forall>j < k. sample_queue (streams ! j) = []"
  shows "earliest_among streams (Suc k) k"
  using assms by (auto simp: earliest_among_def less_Suc_eq)

lemma earliest_among_Suc_keep:
  assumes "earliest_among streams k e"
    and "sample_queue (streams ! k) = [] \<or>
         \<not> head_start_time (streams ! k) < head_start_time (streams ! e)"
  shows "earliest_among streams (Suc k) e"
  using assms by (auto simp: earliest_among_def less_Suc_eq)

lemma pop_sample_scan_invariant:
  "k \<le> length streams \<Longrightarrow>
   fst (fold (pop_sample_scan streams) [0..<k] (0, None)) =
     (if (\<exists>j < k. pending_stream (streams ! j)) then 1 else 0) \<and>
   (case snd (fold (pop_sample_scan streams) [0..<k] (0, None)) of
      None \<Rightarrow> (\<forall>j < k. sample_queue (streams ! j) = [])
    | Some e \<Rightarrow> earliest_among streams k e)"
proof (induction k)
  case 0
  show ?case by simp
next
  case (Suc k)
  define acc where "acc = fold (pop_sample_scan streams) [0..<k] (0, None)"
  have step: "fold (pop_sample_scan streams) [0..<Suc k] (0, None) =
      pop_sample_scan streams k acc"
    by (simp add: acc_def)
  from Suc have pend: "fst acc = (if (\<exists>j < k. pending_stream (streams ! j)) then 1 else 0)"
    and early: "case snd acc of
        None \<Rightarrow> (\<forall>j < k. sample_queue (streams ! j) = [])
      | Some e \<Rightarrow> earliest_among streams k e"
    by (simp_all add: acc_def)
  have "fst (pop_sample_scan streams k acc) =
      (if (\<exists>j < Suc k. pending_stream (streams ! j)) then 1 else 0)"
    using pend by (auto simp: pop_sample_scan_def Let_def pending_stream_def less_Suc_eq)
  moreover have "case snd (pop_sample_scan streams k acc) of
        None \<Rightarrow> (\<forall>j < Suc k. sample_queue (streams ! j) = [])
      | Some e \<Rightarrow> earliest_among streams (Suc k) e"
  proof (cases "snd acc")
    case None
    with early show ?thesis
      by (auto simp: pop_sample_scan_def Let_def less_Suc_eq
          intro: earliest_among_Suc_first)
  next
    case (Some e)
    with early have e: "earliest_among streams k e" by simp
    show ?thesis
    proof (cases "sample_queue (streams ! k) \<noteq> [] \<and>
        head_start_time (streams ! k) < head_start_time (streams ! e)")
      case True
      then show ?thesis
        using Some earliest_among_Suc_new [of streams k e] e
        by (simp add: pop_sample_scan_def Let_def)
    next
      case False
      then show ?thesis
        using Some earliest_among_Suc_keep [of streams k e] e
        by (auto simp: pop_sample_scan_def Let_def)
    qed
  qed
  ultimately show ?case
    by (simp only: step)
qed

lemma pop_sample_loop_earliest:
  assumes "is_earliest_stream streams i"
  shows "snd (pop_sample_loop streams) = Some i"
proof -
  have inv: "case snd (pop_sample_loop streams) of
        None \<Rightarrow> (\<forall>j < length streams. sample_queue (streams ! j) = [])
      | Some e \<Rightarrow> earliest_among streams (length streams) e"
    using pop_sample_scan_invariant [of "length streams" streams]
    by (simp add: pop_sample_loop_def)
  show ?thesis
  proof (cases "snd (pop_sample_loop streams)")
    case None
    with inv assms show ?thesis
      by (auto simp: is_earliest_stream_def earliest_among_def)
  next
    case (Some e)
    with inv have "earliest_among streams (length streams) e" by simp
    with assms have "i = e"
      by (auto simp: is_earliest_stream_def intro: earliest_among_unique)
    with Some show ?thesis by simp
  qed
qed

lemma pop_sample_loop_pending:
  "fst (pop_sample_loop streams) =
     (if (\<exists>stream \<in> set streams. pending_stream stream) then 1 else 0)"
proof -
  have "(\<exists>j < length streams. pending_stream (streams ! j)) =
      (\<exists>stream \<in> set streams. pending_stream stream)"
    by (metis in_set_conv_nth)
  then show ?thesis
    using pop_sample_scan_invariant [of "length streams" streams]
    by (simp add: pop_sample_loop_def)
qed


lemma pop_from_stream_nonempty:
  assumes "sample_queue (stream_list presentation ! i) \<noteq> []"
  shows "pop_from_stream presentation i =
     (Some (hd (sample_queue (stream_list presentation ! i))),
      presentation\<lparr>stream_list := (stream_list presentation)
        [i := (stream_list presentation ! i)
           \<lparr>sample_queue := tl (sample_queue (stream_list presentation ! i))\<rparr>]\<rparr>)"
  using assms
  by (cases "sample_queue (stream_list presentation ! i)")
     (simp_all add: pop_from_stream_def tsmf_stream_pop_sample_def)

lemma advance_playback_time_None: "advance_playback_time (None, presentation) = (None, presentation)"
  by (simp add: advance_playback_time_def)

lemma advance_playback_time_Some:
  "fst (advance_playback_time (Some sample, presentation)) = Some sample \<and>
   stream_list (snd (advance_playback_time (Some sample, presentation))) =
     stream_list presentation"
  by (simp add: advance_playback_time_def)

lemma is_earliest_stream_nonempty:
  "is_earliest_stream streams i \<Longrightarrow> sample_queue (streams ! i) \<noteq> []"
  by (simp add: is_earliest_stream_def earliest_among_def)

lemma pop_sample_when_selected:
  assumes "sample_queue (stream_list presentation ! i) \<noteq> []"
    and "pop_sample_select presentation (pop_sample_loop (stream_list presentation)) =
         pop_from_stream presentation i"
  shows "pops_head_of presentation i"
  using assms pop_from_stream_nonempty [of presentation i]
  by (simp add: pops_head_of_def tsmf_presentation_pop_sample_def advance_playback_time_Some)

lemma pop_sample_when_refused:
  assumes "pop_sample_select presentation (pop_sample_loop (stream_list presentation)) =
         (None, presentation)"
  shows "tsmf_presentation_pop_sample presentation = (None, presentation)"
  using assms by (simp add: tsmf_presentation_pop_sample_def advance_playback_time_None)

lemmas demo_defs = demo_sample_def demo_stream_def demo_sink_def demo_presentation_def
  audio_first_def video_waiting_def sink_queue_length_def presentation_zero_def
  TSMF_MAJOR_TYPE_AUDIO_def TSMF_MAJOR_TYPE_VIDEO_def

lemmas scheduler_defs = tsmf_presentation_pop_sample_def pop_sample_loop_def
  pop_sample_scan_def pop_sample_select_def pop_from_stream_def advance_playback_time_def
  tsmf_stream_pop_sample_def head_start_time_def audio_queue_length_def

subsection \<open>Audio\<close>

text \<open>
  Claim C1. When the earliest stream is an audio stream, \<open>tsmf_presentation_pop_sample\<close>
  pops its head sample, unless an audio sink is attached and reports a queue length of 10
  or more; then it returns no sample and leaves the presentation as it was.
\<close>

theorem audio_popped_unless_sink_full:
  fixes presentation :: "('s, 'd) TSMF_PRESENTATION"
  assumes "is_earliest_stream (stream_list presentation) i"
    and "major_type (stream_list presentation ! i) = TSMF_MAJOR_TYPE_AUDIO"
  shows "if (case audio presentation of
               None \<Rightarrow> False
             | Some dev \<Rightarrow> 10 \<le> audio_queue_length dev)
         then tsmf_presentation_pop_sample presentation = (None, presentation)
         else pops_head_of presentation i"
proof -
  have e: "snd (pop_sample_loop (stream_list presentation)) = Some i"
    using assms(1) by (rule pop_sample_loop_earliest)
  have q: "sample_queue (stream_list presentation ! i) \<noteq> []"
    using assms(1) by (rule is_earliest_stream_nonempty)
  show ?thesis
  proof (cases "case audio presentation of
               None \<Rightarrow> False
             | Some dev \<Rightarrow> 10 \<le> audio_queue_length dev")
    case True
    then have "pop_sample_select presentation (pop_sample_loop (stream_list presentation)) =
         (None, presentation)"
      using e assms(2) by (auto simp: pop_sample_select_def split: option.splits)
    then show ?thesis
      using True pop_sample_when_refused [of presentation] by simp
  next
    case False
    then have "pop_sample_select presentation (pop_sample_loop (stream_list presentation)) =
         pop_from_stream presentation i"
      using e assms(2) by (auto simp: pop_sample_select_def split: option.splits)
    then show ?thesis
      using False q pop_sample_when_selected [of presentation i] by simp
  qed
qed

theorem audio_popped_unless_sink_full_witness:
  "pops_head_of (demo_presentation (Some (demo_sink 3)) 0 audio_first) 0 \<and>
   tsmf_presentation_pop_sample (demo_presentation (Some (demo_sink 10)) 0 audio_first) =
     (None, demo_presentation (Some (demo_sink 10)) 0 audio_first)"
proof -
  have e: "is_earliest_stream (stream_list (demo_presentation dev 0 audio_first)) 0" for dev
    by (simp add: is_earliest_stream_def earliest_among_def demo_defs head_start_time_def
        less_Suc_eq numeral_2_eq_2)
  have m: "major_type (stream_list (demo_presentation dev 0 audio_first) ! 0) =
      TSMF_MAJOR_TYPE_AUDIO" for dev
    by (simp add: demo_defs)
  show ?thesis
    using audio_popped_unless_sink_full [OF e m, of "Some (demo_sink 3)"]
      audio_popped_unless_sink_full [OF e m, of "Some (demo_sink 10)"]
    by (simp add: demo_presentation_def demo_sink_def audio_queue_length_def
        sink_queue_length_def)
qed

subsection \<open>Video\<close>

lemma video_popped_iff:
  fixes presentation :: "('s, 'd) TSMF_PRESENTATION"
  assumes "is_earliest_stream (stream_list presentation) i"
    and "major_type (stream_list presentation ! i) \<noteq> TSMF_MAJOR_TYPE_AUDIO"
  shows "if video_eligible presentation i
         then pops_head_of presentation i
         else tsmf_presentation_pop_sample presentation = (None, presentation)"
proof -
  have e: "snd (pop_sample_loop (stream_list presentation)) = Some i"
    using assms(1) by (rule pop_sample_loop_earliest)
  have q: "sample_queue (stream_list presentation ! i) \<noteq> []"
    using assms(1) by (rule is_earliest_stream_nonempty)
  have p: "(fst (pop_sample_loop (stream_list presentation)) = 0) =
      (\<not> (\<exists>stream \<in> set (stream_list presentation). pending_stream stream))"
    by (simp add: pop_sample_loop_pending)
  show ?thesis
  proof (cases "video_eligible presentation i")
    case True
    then have "pop_sample_select presentation (pop_sample_loop (stream_list presentation)) =
         pop_from_stream presentation i"
      using e assms(2) p by (auto simp: pop_sample_select_def video_eligible_def)
    then show ?thesis
      using True q pop_sample_when_selected [of presentation i] by simp
  next
    case False
    then have "pop_sample_select presentation (pop_sample_loop (stream_list presentation)) =
         (None, presentation)"
      using e assms(2) p by (auto simp: pop_sample_select_def video_eligible_def)
    then show ?thesis
      using False pop_sample_when_refused [of presentation] by simp
  qed
qed

lemma stream_list_stream_end:
  "stream_list (tsmf_stream_end presentation a) =
     (stream_list presentation)[a := (stream_list presentation ! a)\<lparr>eos := 1\<rparr>]"
  by (simp add: tsmf_stream_end_def)

lemma nth_stream_end:
  "sample_queue (stream_list (tsmf_stream_end presentation a) ! j) =
     sample_queue (stream_list presentation ! j) \<and>
   major_type (stream_list (tsmf_stream_end presentation a) ! j) =
     major_type (stream_list presentation ! j)"
proof (cases "a < length (stream_list presentation)")
  case True
  then show ?thesis
    by (auto simp: stream_list_stream_end nth_list_update)
next
  case False
  then have "(stream_list presentation)[a := (stream_list presentation ! a)\<lparr>eos := 1\<rparr>] =
      stream_list presentation"
    by (intro list_update_beyond) simp
  then show ?thesis
    by (simp add: stream_list_stream_end)
qed

lemma is_earliest_stream_end:
  "is_earliest_stream (stream_list (tsmf_stream_end presentation a)) i =
   is_earliest_stream (stream_list presentation) i"
  by (simp add: is_earliest_stream_def earliest_among_def head_start_time_def nth_stream_end)
     (simp add: stream_list_stream_end)

lemma no_pending_after_stream_end:
  assumes "a < length (stream_list presentation)"
    and "\<forall>j < length (stream_list presentation).
           j \<noteq> a \<longrightarrow> \<not> pending_stream (stream_list presentation ! j)"
  shows "\<not> (\<exists>stream \<in> set (stream_list (tsmf_stream_end presentation a)).
              pending_stream stream)"
proof
  assume "\<exists>stream \<in> set (stream_list (tsmf_stream_end presentation a)). pending_stream stream"
  then obtain j where j: "j < length (stream_list presentation)"
    and pj: "pending_stream (stream_list (tsmf_stream_end presentation a) ! j)"
    by (auto simp: in_set_conv_nth stream_list_stream_end)
  show False
  proof (cases "j = a")
    case True
    with pj assms(1) show False
      by (simp add: stream_list_stream_end pending_stream_def)
  next
    case False
    with pj j assms(2) show False
      by (simp add: stream_list_stream_end)
  qed
qed

text \<open>
  Claim C2. When the earliest stream is not an audio stream, its head sample is popped if
  and only if no stream is pending, or \<open>playback_time\<close> is zero, or \<open>playback_time\<close>
  has reached the head sample's start time; otherwise nothing is popped and the
  presentation is left as it was. Once the one pending stream has signalled end-of-stream
  through \<open>tsmf_stream_end\<close>, the head sample of the earliest stream is popped.
\<close>

theorem video_popped_when_eligible:
  fixes presentation :: "('s, 'd) TSMF_PRESENTATION"
  assumes "is_earliest_stream (stream_list presentation) i"
    and "major_type (stream_list presentation ! i) \<noteq> TSMF_MAJOR_TYPE_AUDIO"
  shows "(if video_eligible presentation i
          then pops_head_of presentation i
          else tsmf_presentation_pop_sample presentation = (None, presentation)) \<and>
         (a < length (stream_list presentation) \<and>
          (\<forall>j < length (stream_list presentation).
             j \<noteq> a \<longrightarrow> \<not> pending_stream (stream_list presentation ! j)) \<longrightarrow>
          fst (tsmf_presentation_pop_sample (tsmf_stream_end presentation a)) =
            Some (hd (sample_queue (stream_list presentation ! i))))"
proof (intro conjI impI)
  show "if video_eligible presentation i
        then pops_head_of presentation i
        else tsmf_presentation_pop_sample presentation = (None, presentation)"
    using assms by (rule video_popped_iff)
next
  assume h: "a < length (stream_list presentation) \<and>
          (\<forall>j < length (stream_list presentation).
             j \<noteq> a \<longrightarrow> \<not> pending_stream (stream_list presentation ! j))"
  let ?p = "tsmf_stream_end presentation a"
  have "video_eligible ?p i"
    using h no_pending_after_stream_end [of a presentation]
    by (simp add: video_eligible_def)
  moreover have "is_earliest_stream (stream_list ?p) i"
    using assms(1) by (simp add: is_earliest_stream_end)
  moreover have "major_type (stream_list ?p ! i) \<noteq> TSMF_MAJOR_TYPE_AUDIO"
    using assms(2) by (simp add: nth_stream_end)
  ultimately have "pops_head_of ?p i"
    using video_popped_iff [of ?p i] by simp
  then show "fst (tsmf_presentation_pop_sample ?p) =
      Some (hd (sample_queue (stream_list presentation ! i)))"
    by (simp add: pops_head_of_def nth_stream_end)
qed

theorem video_popped_when_eligible_witness:
  "pops_head_of (demo_presentation None 0 video_waiting) 0 \<and>
   tsmf_presentation_pop_sample (demo_presentation None 50 video_waiting) =
     (None, demo_presentation None 50 video_waiting) \<and>
   fst (tsmf_presentation_pop_sample (tsmf_stream_end (demo_presentation None 50 video_waiting) 1)) =
     Some (demo_sample 2 100 200)"
proof -
  have e: "is_earliest_stream (stream_list (demo_presentation None t video_waiting)) 0" for t
    by (simp add: is_earliest_stream_def earliest_among_def demo_defs head_start_time_def
        less_Suc_eq numeral_2_eq_2)
  have m: "major_type (stream_list (demo_presentation None t video_waiting) ! 0) \<noteq>
      TSMF_MAJOR_TYPE_AUDIO" for t
    by (simp add: demo_defs)
  have yes: "video_eligible (demo_presentation None 0 video_waiting) 0"
    by (simp add: video_eligible_def demo_defs)
  have no: "\<not> video_eligible (demo_presentation None 50 video_waiting) 0"
    by (simp add: video_eligible_def demo_defs pending_stream_def head_start_time_def)
  have others: "1 < length (stream_list (demo_presentation None 50 video_waiting)) \<and>
      (\<forall>j < length (stream_list (demo_presentation None 50 video_waiting)).
         j \<noteq> 1 \<longrightarrow>
         \<not> pending_stream (stream_list (demo_presentation None 50 video_waiting) ! j))"
    by (simp add: demo_defs pending_stream_def less_Suc_eq numeral_2_eq_2)
  have hd: "hd (sample_queue (stream_list (demo_presentation None 50 video_waiting) ! 0)) =
      demo_sample 2 100 200"
    by (simp add: demo_defs)
  show ?thesis
    using video_popped_when_eligible [OF e m, of 0 1]
      video_popped_when_eligible [OF e m, of 50 1] yes no others hd
    by simp
qed

subsection \<open>The playback time\<close>

lemma playback_time_pop_from_stream:
  "playback_time (snd (pop_from_stream presentation i)) = playback_time presentation"
  by (simp add: pop_from_stream_def Let_def)

lemma playback_time_pop_sample_select:
  "playback_time (snd (pop_sample_select presentation scan)) = playback_time presentation"
  by (simp add: pop_sample_select_def playback_time_pop_from_stream split: option.splits)

lemma playback_time_advance:
  "playback_time (snd (advance_playback_time r)) =
     (case fst r of
        None \<Rightarrow> playback_time (snd r)
      | Some sample \<Rightarrow> max (playback_time (snd r)) (end_time sample))"
  by (cases r) (auto simp: advance_playback_time_def max_def split: option.splits)

lemma fst_advance: "fst (advance_playback_time r) = fst r"
  by (cases r) (simp add: advance_playback_time_def split: option.splits)

lemma playback_time_pop_sample:
  "playback_time (snd (tsmf_presentation_pop_sample presentation)) =
     (case fst (tsmf_presentation_pop_sample presentation) of
        None \<Rightarrow> playback_time presentation
      | Some sample \<Rightarrow> max (playback_time presentation) (end_time sample))"
  by (simp add: tsmf_presentation_pop_sample_def playback_time_advance fst_advance
      playback_time_pop_sample_select split: option.splits)

lemma playback_time_pop_sample_le:
  "playback_time presentation \<le> playback_time (snd (tsmf_presentation_pop_sample presentation))"
  by (simp add: playback_time_pop_sample split: option.splits)

lemma scheduler_run_add:
  "scheduler_run (m + k) presentation = scheduler_run k (scheduler_run m presentation)"
  by (induction m arbitrary: presentation) simp_all

lemma playback_time_scheduler_run_le:
  "playback_time presentation \<le> playback_time (scheduler_run n presentation)"
proof (induction n arbitrary: presentation)
  case 0
  show ?case by simp
next
  case (Suc n)
  have "playback_time presentation \<le>
      playback_time (snd (tsmf_presentation_pop_sample presentation))"
    by (rule playback_time_pop_sample_le)
  also have "\<dots> \<le> playback_time (scheduler_run (Suc n) presentation)"
    using Suc.IH [of "snd (tsmf_presentation_pop_sample presentation)"] by simp
  finally show ?case .
qed

text \<open>
  Claim C3. Across any run of scheduler invocations \<open>playback_time\<close> does not
  decrease; an invocation that pops a sample leaves \<open>playback_time\<close> at the maximum of
  its old value and the sample's \<open>end_time\<close>, and one that pops nothing leaves it
  unchanged.
\<close>

theorem playback_time_monotone:
  fixes presentation :: "('s, 'd) TSMF_PRESENTATION"
  shows
  "(m \<le> n \<longrightarrow>
      playback_time (scheduler_run m presentation) \<le> playback_time (scheduler_run n presentation)) \<and>
   (fst (tsmf_presentation_pop_sample presentation) = Some sample \<longrightarrow>
      playback_time (snd (tsmf_presentation_pop_sample presentation)) =
        max (playback_time presentation) (end_time sample)) \<and>
   (fst (tsmf_presentation_pop_sample presentation) = None \<longrightarrow>
      playback_time (snd (tsmf_presentation_pop_sample presentation)) =
        playback_time presentation)"
proof -
  have "playback_time (scheduler_run m presentation) \<le>
      playback_time (scheduler_run n presentation)" if "m \<le> n"
  proof -
    from that have "n = m + (n - m)" by simp
    then have "scheduler_run n presentation =
        scheduler_run (n - m) (scheduler_run m presentation)"
      using scheduler_run_add [of m "n - m" presentation] by simp
    then show ?thesis
      using playback_time_scheduler_run_le [of "scheduler_run m presentation" "n - m"] by simp
  qed
  then show ?thesis
    by (simp add: playback_time_pop_sample)
qed

theorem playback_time_monotone_witness:
  "playback_time (scheduler_run 0 (demo_presentation None 0 audio_first)) \<le>
     playback_time (scheduler_run 2 (demo_presentation None 0 audio_first)) \<and>
   playback_time (snd (tsmf_presentation_pop_sample (demo_presentation None 0 audio_first))) =
     max (playback_time (demo_presentation None 0 audio_first)) (end_time (demo_sample 1 0 50)) \<and>
   playback_time (snd (tsmf_presentation_pop_sample (demo_presentation None 50 video_waiting))) =
     playback_time (demo_presentation None 50 video_waiting)"
proof -
  have popped: "fst (tsmf_presentation_pop_sample (demo_presentation None 0 audio_first)) =
      Some (demo_sample 1 0 50)"
    by (simp add: scheduler_defs demo_defs upt_rec)
  have idle: "fst (tsmf_presentation_pop_sample (demo_presentation None 50 video_waiting)) =
      None"
    by (simp add: scheduler_defs demo_defs upt_rec)
  have le: "(0::nat) \<le> 2" by simp
  have run: "playback_time (scheduler_run 0 (demo_presentation None 0 audio_first)) \<le>
     playback_time (scheduler_run 2 (demo_presentation None 0 audio_first))"
    using playback_time_monotone [of 0 2 "demo_presentation None 0 audio_first"
        "demo_sample 1 0 50"] le
    by blast
  have advanced:
    "playback_time (snd (tsmf_presentation_pop_sample (demo_presentation None 0 audio_first))) =
     max (playback_time (demo_presentation None 0 audio_first)) (end_time (demo_sample 1 0 50))"
    using playback_time_monotone [of 0 2 "demo_presentation None 0 audio_first"
        "demo_sample 1 0 50"] popped
    by blast
  have kept:
    "playback_time (snd (tsmf_presentation_pop_sample (demo_presentation None 50 video_waiting))) =
     playback_time (demo_presentation None 50 video_waiting)"
    using playback_time_monotone [of 0 2 "demo_presentation None 50 video_waiting"
        "demo_sample 1 0 50"] idle
    by blast
  from run advanced kept show ?thesis
    by (intro conjI)
qed

section \<open>Creation with an identifier already in use\<close>

lemma find_by_id_present:
  "\<exists>q \<in> set registry. guid_equal (presentation_id q) guid \<Longrightarrow>
   tsmf_presentation_find_by_id registry guid \<noteq> None"
  by (auto simp: tsmf_presentation_find_by_id_def find_None_iff)

lemma stream_find_by_id_present:
  "\<exists>s \<in> set (stream_list presentation). stream_id s = sid \<Longrightarrow>
   tsmf_stream_find_by_id presentation sid \<noteq> None"
  by (auto simp: tsmf_stream_find_by_id_def find_None_iff)

text \<open>
  Claim C4. \<open>tsmf_presentation_new\<close> with an identifier that a presentation of the
  registry already has, and \<open>tsmf_stream_new\<close> with an identifier that a stream of the
  presentation already has, return no object and leave the registry, respectively the
  presentation, exactly as it was: its streams and sample queues with it.
\<close>

theorem duplicate_id_creation_fails:
  fixes registry :: "('s, 'd) TSMF_PRESENTATION list"
    and presentation :: "('s, 'd) TSMF_PRESENTATION"
  shows
  "((\<exists>q \<in> set registry. guid_equal (presentation_id q) guid) \<longrightarrow>
      tsmf_presentation_new registry guid pChannelCallback = (None, registry)) \<and>
   ((\<exists>s \<in> set (stream_list presentation). stream_id s = sid) \<longrightarrow>
      tsmf_stream_new presentation sid = (None, presentation))"
proof (intro conjI impI)
  assume "\<exists>q \<in> set registry. guid_equal (presentation_id q) guid"
  then obtain found where "tsmf_presentation_find_by_id registry guid = Some found"
    using find_by_id_present [of registry guid] by blast
  then show "tsmf_presentation_new registry guid pChannelCallback = (None, registry)"
    by (simp add: tsmf_presentation_new_def)
next
  assume "\<exists>s \<in> set (stream_list presentation). stream_id s = sid"
  then obtain found where "tsmf_stream_find_by_id presentation sid = Some found"
    using stream_find_by_id_present [of presentation sid] by blast
  then show "tsmf_stream_new presentation sid = (None, presentation)"
    by (simp add: tsmf_stream_new_def)
qed

theorem duplicate_id_creation_fails_witness:
  "tsmf_presentation_new demo_registry demo_guid 1 = (None, demo_registry) \<and>
   tsmf_stream_new (demo_presentation None 0 audio_first) 2 =
     (None, demo_presentation None 0 audio_first)"
proof -
  have p: "\<exists>q \<in> set demo_registry. guid_equal (presentation_id q) demo_guid"
    by (simp add: demo_registry_def guid_equal_def)
  have s: "\<exists>s \<in> set (stream_list (demo_presentation None 0 audio_first)). stream_id s = 2"
    by (simp add: demo_defs)
  show ?thesis
    using duplicate_id_creation_fails [of demo_registry demo_guid 1
        "demo_presentation None 0 audio_first" 2] p s
    by simp
qed

section \<open>Pushing samples\<close>

lemma push_one_decoded:
  assumes "push_ret stream c = 0"
  shows "\<exists>sample. sample_queue (push_one stream c) = sample_queue stream @ [sample] \<and>
           sample_key sample = call_key c"
  using assms
  by (auto simp: push_ret_def push_one_def tsmf_stream_push_sample_def sample_key_def
      call_key_def Let_def split: option.splits prod.splits)

lemma push_all_keys:
  "all_decoded stream cs \<Longrightarrow>
   map sample_key (sample_queue (push_all stream cs)) =
     map sample_key (sample_queue stream) @ map call_key cs"
proof (induction cs arbitrary: stream)
  case Nil
  show ?case by simp
next
  case (Cons c cs)
  then have ret: "push_ret stream c = 0" and rest: "all_decoded (push_one stream c) cs"
    by simp_all
  from push_one_decoded [OF ret] obtain sample where
    q: "sample_queue (push_one stream c) = sample_queue stream @ [sample]"
    and k: "sample_key sample = call_key c"
    by blast
  from Cons.IH [OF rest] q k show ?case by simp
qed

lemma start_time_keys:
  "map sample_key xs = map sample_key ys @ map call_key cs \<Longrightarrow>
   map start_time xs = map start_time ys @ map call_start_time cs"
proof -
  assume h: "map sample_key xs = map sample_key ys @ map call_key cs"
  have s: "map start_time zs = map (fst \<circ> snd \<circ> snd) (map sample_key zs)" for zs
    by (simp add: sample_key_def comp_def)
  have c: "map call_start_time cs = map (fst \<circ> snd \<circ> snd) (map call_key cs)"
    by (simp add: call_key_def comp_def)
  show ?thesis
    by (simp only: s [of xs] s [of ys] c h map_append)
qed

lemma pop_all_queue:
  "sample_queue stream = q \<Longrightarrow>
   pop_all (length q) stream = (map Some q, stream\<lparr>sample_queue := []\<rparr>)"
proof (induction q arbitrary: stream)
  case Nil
  then show ?case by simp
next
  case (Cons sample rest)
  then have p: "tsmf_stream_pop_sample stream = (Some sample, stream\<lparr>sample_queue := rest\<rparr>)"
    by (simp add: tsmf_stream_pop_sample_def)
  have "pop_all (length rest) (stream\<lparr>sample_queue := rest\<rparr>) =
      (map Some rest, stream\<lparr>sample_queue := rest\<rparr>\<lparr>sample_queue := []\<rparr>)"
    by (rule Cons.IH) simp
  with p show ?case by (simp add: Let_def)
qed

text \<open>
  Claim C6. After any sequence of calls of \<open>tsmf_stream_push_sample\<close> on one stream,
  each of which decodes, popping the queue as many times as it has samples returns the
  samples that were there before followed by one sample per call, in the order of the
  calls, and leaves the queue empty; the start times come out non-decreasing when they
  went in non-decreasing.
\<close>

theorem push_then_pop_fifo:
  fixes stream :: "'d TSMF_STREAM"
  assumes "all_decoded stream cs"
  shows "fst (pop_all (length (sample_queue stream) + length cs) (push_all stream cs)) =
           map Some (sample_queue (push_all stream cs)) \<and>
         sample_queue (snd (pop_all (length (sample_queue stream) + length cs)
           (push_all stream cs))) = [] \<and>
         map sample_key (sample_queue (push_all stream cs)) =
           map sample_key (sample_queue stream) @ map call_key cs \<and>
         (sorted (map start_time (sample_queue stream) @ map call_start_time cs) \<longrightarrow>
            sorted (map start_time (sample_queue (push_all stream cs))))"
proof -
  have keys: "map sample_key (sample_queue (push_all stream cs)) =
      map sample_key (sample_queue stream) @ map call_key cs"
    using assms by (rule push_all_keys)
  then have "length (map sample_key (sample_queue (push_all stream cs))) =
      length (map sample_key (sample_queue stream) @ map call_key cs)"
    by simp
  then have len: "length (sample_queue (push_all stream cs)) =
      length (sample_queue stream) + length cs"
    by simp
  have pop: "pop_all (length (sample_queue (push_all stream cs))) (push_all stream cs) =
      (map Some (sample_queue (push_all stream cs)),
       (push_all stream cs)\<lparr>sample_queue := []\<rparr>)"
    by (rule pop_all_queue) simp
  have times: "map start_time (sample_queue (push_all stream cs)) =
      map start_time (sample_queue stream) @ map call_start_time cs"
    using keys by (rule start_time_keys)
  show ?thesis
    using pop keys times by (simp add: len)
qed

theorem push_then_pop_fifo_witness:
  "fst (pop_all 3 (push_all (decoding_stream demo_decoder)
          [demo_call 1 0, demo_call 2 50, demo_call 3 100])) =
     map Some (sample_queue (push_all (decoding_stream demo_decoder)
          [demo_call 1 0, demo_call 2 50, demo_call 3 100])) \<and>
   map sample_key (sample_queue (push_all (decoding_stream demo_decoder)
          [demo_call 1 0, demo_call 2 50, demo_call 3 100])) =
     [(1, 1, 0, 50, 50), (1, 2, 50, 100, 50), (1, 3, 100, 150, 50)] \<and>
   sorted (map start_time (sample_queue (push_all (decoding_stream demo_decoder)
          [demo_call 1 0, demo_call 2 50, demo_call 3 100])))"
proof -
  have ok: "all_decoded (decoding_stream demo_decoder)
      [demo_call 1 0, demo_call 2 50, demo_call 3 100]"
    by (simp add: push_ret_def push_one_def tsmf_stream_push_sample_def decoding_stream_def
        demo_decoder_def demo_decode_def demo_get_decoded_def demo_call_def stream_zero_def)
  have empty: "sample_queue (decoding_stream demo_decoder) = []"
    by (simp add: decoding_stream_def stream_zero_def)
  have len: "length (sample_queue (decoding_stream demo_decoder)) +
      length [demo_call 1 0, demo_call 2 50, demo_call 3 100] = 3"
    by (simp add: empty)
  have asc: "sorted (map start_time (sample_queue (decoding_stream demo_decoder)) @
      map call_start_time [demo_call 1 0, demo_call 2 50, demo_call 3 100])"
    by (simp add: empty demo_call_def)
  have keys: "map sample_key (sample_queue (decoding_stream demo_decoder)) @
      map call_key [demo_call 1 0, demo_call 2 50, demo_call 3 100] =
      [(1, 1, 0, 50, 50), (1, 2, 50, 100, 50), (1, 3, 100, 150, 50)]"
    by (simp add: empty call_key_def demo_call_def)
  show ?thesis
    using push_then_pop_fifo [OF ok] asc
    unfolding len keys by blast
qed

text \<open>
  Claim C5, as amended. \<open>tsmf_stream_push_sample\<close> returns the stream as it was when no
  decoder is attached, and leaves the queue as it was when \<open>Decode\<close> fails. When
  \<open>Decode\<close> succeeds, exactly one sample is appended behind the tail of the queue; it
  carries the buffer and size that \<open>GetDecodedData\<close> returns when the decoder provides
  that function, and no payload (a null buffer of size 0) when it does not.
\<close>

theorem push_sample_enqueues_what_decoder_gives:
  fixes stream :: "'d TSMF_STREAM"
  shows
  "(decoder stream = None \<longrightarrow>
      tsmf_stream_push_sample stream cb sid st et dur extensions n payload = stream) \<and>
   (decoder stream = Some dec \<and>
    fst (Decode dec (decoder_state dec) payload n extensions) \<noteq> 0 \<longrightarrow>
      sample_queue (tsmf_stream_push_sample stream cb sid st et dur extensions n payload) =
        sample_queue stream) \<and>
   (decoder stream = Some dec \<and>
    fst (Decode dec (decoder_state dec) payload n extensions) = 0 \<longrightarrow>
      sample_queue (tsmf_stream_push_sample stream cb sid st et dur extensions n payload) =
        sample_queue stream @
          [\<lparr>sample_id = sid, start_time = st, end_time = et, duration = dur,
            data_size =
              (case GetDecodedData dec of
                 None \<Rightarrow> 0
               | Some get \<Rightarrow>
                   snd (fst (get (snd (Decode dec (decoder_state dec) payload n extensions))))),
            data =
              (case GetDecodedData dec of
                 None \<Rightarrow> None
               | Some get \<Rightarrow>
                   fst (fst (get (snd (Decode dec (decoder_state dec) payload n extensions))))),
            channel_callback = cb\<rparr>])"
  by (auto simp: tsmf_stream_push_sample_def Let_def split: option.splits prod.splits)

theorem push_sample_enqueues_what_decoder_gives_witness:
  "tsmf_stream_push_sample (stream_zero :: nat TSMF_STREAM) 1 1 0 50 50 0 2 [1, 2] = stream_zero \<and>
   sample_queue (tsmf_stream_push_sample (decoding_stream demo_decoder) 1 1 0 50 50 0 0 []) = [] \<and>
   sample_queue (tsmf_stream_push_sample (decoding_stream demo_decoder) 1 1 0 50 50 0 2 [1, 2]) =
     [\<lparr>sample_id = 1, start_time = 0, end_time = 50, duration = 50, data_size = 1,
       data = Some [1], channel_callback = 1\<rparr>]"
proof -
  have none: "decoder (stream_zero :: nat TSMF_STREAM) = None"
    by (simp add: stream_zero_def)
  have some: "decoder (decoding_stream demo_decoder) = Some demo_decoder"
    by (simp add: decoding_stream_def stream_zero_def)
  have fail: "fst (Decode demo_decoder (decoder_state demo_decoder) [] 0 0) \<noteq> 0"
    by (simp add: demo_decoder_def demo_decode_def)
  have ok: "fst (Decode demo_decoder (decoder_state demo_decoder) [1, 2] 2 0) = 0"
    by (simp add: demo_decoder_def demo_decode_def)
  have empty: "sample_queue (decoding_stream demo_decoder) = []"
    by (simp add: decoding_stream_def stream_zero_def)
  have got: "GetDecodedData demo_decoder = Some demo_get_decoded \<and>
      fst (demo_get_decoded (snd (Decode demo_decoder (decoder_state demo_decoder) [1, 2] 2 0))) =
        (Some [1], 1)"
    by (simp add: demo_decoder_def demo_decode_def demo_get_decoded_def)
  have a: "tsmf_stream_push_sample (stream_zero :: nat TSMF_STREAM) 1 1 0 50 50 0 2 [1, 2] =
      stream_zero"
    using push_sample_enqueues_what_decoder_gives
      [of "stream_zero :: nat TSMF_STREAM" 1 1 0 50 50 0 2 "[1, 2]" demo_decoder] none
    by blast
  have b: "sample_queue (tsmf_stream_push_sample (decoding_stream demo_decoder)
      1 1 0 50 50 0 0 []) = []"
    using push_sample_enqueues_what_decoder_gives
      [of "decoding_stream demo_decoder" 1 1 0 50 50 0 0 "[]" demo_decoder] some fail empty
    by simp
  have c: "sample_queue (tsmf_stream_push_sample (decoding_stream demo_decoder)
      1 1 0 50 50 0 2 [1, 2]) =
     [\<lparr>sample_id = 1, start_time = 0, end_time = 50, duration = 50, data_size = 1,
       data = Some [1], channel_callback = 1\<rparr>]"
    using push_sample_enqueues_what_decoder_gives
      [of "decoding_stream demo_decoder" 1 1 0 50 50 0 2 "[1, 2]" demo_decoder] some ok empty got
    by simp
  from a b c show ?thesis by (intro conjI)
qed

text \<open>
  Claim C5 as stated fails for a decoder whose \<open>GetDecodedData\<close> is null: its
  \<open>Decode\<close> succeeds and the sample appended carries no payload.
\<close>

theorem push_sample_without_get_counterexample:
  "decoder (decoding_stream decoder_without_get) = Some decoder_without_get \<and>
   fst (Decode decoder_without_get (decoder_state decoder_without_get) [1, 2] 2 0) = 0 \<and>
   GetDecodedData decoder_without_get = None \<and>
   sample_queue (tsmf_stream_push_sample (decoding_stream decoder_without_get)
       1 1 0 50 50 0 2 [1, 2]) =
     [\<lparr>sample_id = 1, start_time = 0, end_time = 50, duration = 50, data_size = 0,
       data = None, channel_callback = 1\<rparr>]"
  by (simp add: tsmf_stream_push_sample_def decoding_stream_def decoder_without_get_def
      demo_decode_def stream_zero_def)

section \<open>Dispatching a video sample\<close>

lemma notified_push_or_free:
  "notified (push_or_free answer t callback event) = notified t @ [(callback, event)]"
  by (simp add: push_or_free_def tsmf_push_event_def)

lemma restore_last_video_frame_result:
  "notified (snd (tsmf_presentation_restore_last_video_frame answer (presentation, t))) =
     notified t @
       (if last_width presentation \<noteq> 0 \<and> last_height presentation \<noteq> 0
        then [(presentation_channel_callback presentation, redraw_event presentation)]
        else []) \<and>
   output_x (fst (tsmf_presentation_restore_last_video_frame answer (presentation, t))) =
     output_x presentation \<and>
   output_y (fst (tsmf_presentation_restore_last_video_frame answer (presentation, t))) =
     output_y presentation \<and>
   output_width (fst (tsmf_presentation_restore_last_video_frame answer (presentation, t))) =
     output_width presentation \<and>
   output_height (fst (tsmf_presentation_restore_last_video_frame answer (presentation, t))) =
     output_height presentation"
  by (simp add: tsmf_presentation_restore_last_video_frame_def Let_def notified_push_or_free
      redraw_event_def)

text \<open>
  Claim C9, as amended. For a video sample with a payload, the redraw of the last
  delivered region is pushed before the frame if and only if that region differs from the
  target region and has a non-zero width and a non-zero height; the frame is pushed in
  every case, the last delivered region becomes the target region, and the sample's buffer
  is cleared. For a sample without a payload nothing is pushed and nothing changes.
\<close>

theorem video_dispatch_redraws_delivered_region:
  fixes presentation :: "('s, 'd) TSMF_PRESENTATION"
  shows
  "(data sample \<noteq> None \<longrightarrow>
      notified (snd (snd (tsmf_sample_playback_video answer presentation stream sample t))) =
        notified t @
          (if region_differs presentation \<and>
              last_width presentation \<noteq> 0 \<and> last_height presentation \<noteq> 0
           then [(presentation_channel_callback presentation, redraw_event presentation)]
           else []) @
          [(channel_callback sample, frame_event presentation stream sample)] \<and>
      last_x (fst (tsmf_sample_playback_video answer presentation stream sample t)) =
        output_x presentation \<and>
      last_y (fst (tsmf_sample_playback_video answer presentation stream sample t)) =
        output_y presentation \<and>
      last_width (fst (tsmf_sample_playback_video answer presentation stream sample t)) =
        output_width presentation \<and>
      last_height (fst (tsmf_sample_playback_video answer presentation stream sample t)) =
        output_height presentation \<and>
      \<not> region_differs (fst (tsmf_sample_playback_video answer presentation stream sample t)) \<and>
      data (fst (snd (tsmf_sample_playback_video answer presentation stream sample t))) = None \<and>
      data_size (fst (snd (tsmf_sample_playback_video answer presentation stream sample t))) = 0) \<and>
   (data sample = None \<longrightarrow>
      tsmf_sample_playback_video answer presentation stream sample t =
        (presentation, sample, t))"
proof (intro conjI impI)
  assume "data sample = None"
  then show "tsmf_sample_playback_video answer presentation stream sample t =
        (presentation, sample, t)"
    by (simp add: tsmf_sample_playback_video_def)
next
  assume d: "data sample \<noteq> None"
  note r = restore_last_video_frame_result [of answer presentation t]
  show "notified (snd (snd (tsmf_sample_playback_video answer presentation stream sample t))) =
        notified t @
          (if region_differs presentation \<and>
              last_width presentation \<noteq> 0 \<and> last_height presentation \<noteq> 0
           then [(presentation_channel_callback presentation, redraw_event presentation)]
           else []) @
          [(channel_callback sample, frame_event presentation stream sample)]"
    using d r
    by (simp add: tsmf_sample_playback_video_def Let_def notified_push_or_free frame_event_def)
  show "last_x (fst (tsmf_sample_playback_video answer presentation stream sample t)) =
        output_x presentation"
    using d r by (simp add: tsmf_sample_playback_video_def Let_def)
  show "last_y (fst (tsmf_sample_playback_video answer presentation stream sample t)) =
        output_y presentation"
    using d r by (simp add: tsmf_sample_playback_video_def Let_def)
  show "last_width (fst (tsmf_sample_playback_video answer presentation stream sample t)) =
        output_width presentation"
    using d r by (simp add: tsmf_sample_playback_video_def Let_def)
  show "last_height (fst (tsmf_sample_playback_video answer presentation stream sample t)) =
        output_height presentation"
    using d r by (simp add: tsmf_sample_playback_video_def Let_def)
  show "\<not> region_differs (fst (tsmf_sample_playback_video answer presentation stream sample t))"
    using d r by (simp add: tsmf_sample_playback_video_def Let_def region_differs_def)
  show "data (fst (snd (tsmf_sample_playback_video answer presentation stream sample t))) = None"
    using d by (simp add: tsmf_sample_playback_video_def Let_def)
  show "data_size (fst (snd (tsmf_sample_playback_video answer presentation stream sample t))) = 0"
    using d by (simp add: tsmf_sample_playback_video_def Let_def)
qed

theorem video_dispatch_redraws_delivered_region_witness:
  "notified (snd (snd (tsmf_sample_playback_video accept_all moved_frame video_stream
     video_sample no_events))) =
     [(1, redraw_event moved_frame), (1, frame_event moved_frame video_stream video_sample)] \<and>
   \<not> region_differs (fst (tsmf_sample_playback_video accept_all moved_frame video_stream
     video_sample no_events)) \<and>
   data (fst (snd (tsmf_sample_playback_video accept_all moved_frame video_stream
     video_sample no_events))) = None \<and>
   tsmf_sample_playback_video accept_all moved_frame video_stream
     (video_sample\<lparr>data := None\<rparr>) no_events =
     (moved_frame, video_sample\<lparr>data := None\<rparr>, no_events)"
proof -
  have payload: "data video_sample \<noteq> None"
    by (simp add: video_sample_def)
  have empty: "data (video_sample\<lparr>data := None\<rparr>) = None"
    by simp
  have moved: "region_differs moved_frame \<and> last_width moved_frame \<noteq> 0 \<and>
      last_height moved_frame \<noteq> 0 \<and> presentation_channel_callback moved_frame = 1 \<and>
      channel_callback video_sample = 1 \<and> notified no_events = []"
    by (simp add: region_differs_def moved_frame_def first_frame_def presentation_zero_def
        video_sample_def no_events_def)
  have a: "notified (snd (snd (tsmf_sample_playback_video accept_all moved_frame video_stream
       video_sample no_events))) =
     [(1, redraw_event moved_frame), (1, frame_event moved_frame video_stream video_sample)] \<and>
   \<not> region_differs (fst (tsmf_sample_playback_video accept_all moved_frame video_stream
     video_sample no_events)) \<and>
   data (fst (snd (tsmf_sample_playback_video accept_all moved_frame video_stream
     video_sample no_events))) = None"
    using video_dispatch_redraws_delivered_region
      [of video_sample accept_all moved_frame video_stream no_events] payload moved
    by simp
  have b: "tsmf_sample_playback_video accept_all moved_frame video_stream
     (video_sample\<lparr>data := None\<rparr>) no_events =
     (moved_frame, video_sample\<lparr>data := None\<rparr>, no_events)"
    using video_dispatch_redraws_delivered_region
      [of "video_sample\<lparr>data := None\<rparr>" accept_all moved_frame video_stream no_events] empty
    by blast
  from a b show ?thesis by simp
qed

text \<open>
  Claim C9 as stated fails on the first frame of a presentation: the last delivered
  region is all zero and differs from the target region, and only the frame is pushed.
\<close>

theorem first_frame_without_redraw_counterexample:
  "data video_sample \<noteq> None \<and> region_differs first_frame \<and>
   notified (snd (snd (tsmf_sample_playback_video accept_all first_frame video_stream
     video_sample no_events))) =
     [(1, frame_event first_frame video_stream video_sample)]"
  by (simp add: tsmf_sample_playback_video_def tsmf_presentation_restore_last_video_frame_def
      region_differs_def first_frame_def presentation_zero_def video_sample_def
      video_stream_def no_events_def frame_event_def push_or_free_def tsmf_push_event_def
      accept_all_def Let_def)

section \<open>What a successful decode leaves to retrieve\<close>

lemma decode_audio_loop_keeps_buffer:
  assumes "decode_audio_loop lib mdecoder src src_size = Some m'"
  shows "decoded_data mdecoder \<noteq> None \<longrightarrow> decoded_data m' \<noteq> None"
proof (rule decode_audio_loop.raw_induct
    [where P = "\<lambda>lib mdecoder src src_size m'.
       decoded_data mdecoder \<noteq> None \<longrightarrow> decoded_data m' \<noteq> None", OF _ assms],
    goal_cases)
  case (1 loop lib mdecoder src src_size m')
  define m1 where "m1 = ensure_space mdecoder"
  define room where "room = sint (decoded_size_max m1 - decoded_size m1)"
  obtain len got out c1 where
    answer: "avcodec_decode_audio3 lib (codec_context m1) room src src_size =
      ((len, got, out), c1)"
    by (metis prod_cases3 surj_pair)
  have same: "decoded_data m1 = decoded_data mdecoder"
    by (simp add: m1_def ensure_space_def)
  have body:
    "(if src_size = 0 then Some mdecoder
      else if len \<le> 0 \<or> got \<le> 0 then Some (m1\<lparr>codec_context := c1\<rparr>)
      else loop lib
             (m1\<lparr>codec_context := c1,
                 decoded_size := decoded_size m1 + word_of_int got,
                 decoded_data := map_option (\<lambda>buf. buf @ out) (decoded_data m1)\<rparr>)
             (drop (nat len) src) (src_size - word_of_int len)) = Some m'"
    using 1(2)
    unfolding Let_def m1_def [symmetric] room_def [symmetric] answer prod.case
    by (simp split: if_splits)
  show ?case
  proof (cases "src_size = 0 \<or> len \<le> 0 \<or> got \<le> 0")
    case True
    with body same show ?thesis
      by (auto split: if_splits)
  next
    case False
    with body have "loop lib
             (m1\<lparr>codec_context := c1,
                 decoded_size := decoded_size m1 + word_of_int got,
                 decoded_data := map_option (\<lambda>buf. buf @ out) (decoded_data m1)\<rparr>)
             (drop (nat len) src) (src_size - word_of_int len) = Some m'"
      by simp
    from 1(1) [OF this] same show ?thesis
      by simp
  qed
qed

lemma src_size_decreases:
  fixes src_size :: uint32
  assumes "0 < len" and "len \<le> uint src_size"
  shows "unat (src_size - word_of_int len) < unat src_size"
proof -
  have u: "uint (word_of_int len :: uint32) = len"
    using assms uint_lt2p [of src_size] by (simp add: uint_word_of_int)
  have "uint (src_size - word_of_int len) = uint src_size - len"
    using assms u by (simp add: uint_sub_if')
  then have "uint (src_size - word_of_int len) < uint src_size"
    using assms by simp
  then show ?thesis
    by (simp add: word_less_def [symmetric] word_less_nat_alt)
qed

lemma decode_audio_loop_returns:
  assumes within: "\<And>c room src k. k \<noteq> 0 \<Longrightarrow>
      fst (fst (avcodec_decode_audio3 lib c room src k)) \<le> uint k"
  shows "decode_audio_loop lib mdecoder src src_size \<noteq> None"
proof (induction "unat src_size" arbitrary: mdecoder src src_size rule: less_induct)
  case less
  define m1 where "m1 = ensure_space mdecoder"
  define room where "room = sint (decoded_size_max m1 - decoded_size m1)"
  obtain len got out c1 where
    answer: "avcodec_decode_audio3 lib (codec_context m1) room src src_size =
      ((len, got, out), c1)"
    by (metis prod_cases3 surj_pair)
  have unfold: "decode_audio_loop lib mdecoder src src_size =
      (if src_size = 0 then Some mdecoder
       else if len \<le> 0 \<or> got \<le> 0 then Some (m1\<lparr>codec_context := c1\<rparr>)
       else decode_audio_loop lib
              (m1\<lparr>codec_context := c1,
                  decoded_size := decoded_size m1 + word_of_int got,
                  decoded_data := map_option (\<lambda>buf. buf @ out) (decoded_data m1)\<rparr>)
              (drop (nat len) src) (src_size - word_of_int len))"
    by (subst decode_audio_loop.simps)
       (simp add: Let_def m1_def [symmetric] room_def [symmetric] answer)
  show ?case
  proof (cases "src_size = 0 \<or> len \<le> 0 \<or> got \<le> 0")
    case True
    with unfold show ?thesis
      by (auto split: if_splits)
  next
    case False
    then have "len \<le> uint src_size"
      using within [of src_size "codec_context m1" room src] answer by simp
    with False have "unat (src_size - word_of_int len) < unat src_size"
      by (intro src_size_decreases) simp_all
    then have "decode_audio_loop lib
              (m1\<lparr>codec_context := c1,
                  decoded_size := decoded_size m1 + word_of_int got,
                  decoded_data := map_option (\<lambda>buf. buf @ out) (decoded_data m1)\<rparr>)
              (drop (nat len) src) (src_size - word_of_int len) \<noteq> None"
      by (rule less.hyps)
    with False unfold show ?thesis by simp
  qed
qed

lemmas ffmpeg_defs = tsmf_ffmpeg_decode_def tsmf_ffmpeg_decode_audio_def
  tsmf_ffmpeg_decode_video_def tsmf_ffmpeg_get_decoded_data_def ensure_space_def
  AVMEDIA_TYPE_VIDEO_def AVMEDIA_TYPE_AUDIO_def AVCODEC_MAX_AUDIO_FRAME_SIZE_def
  FF_INPUT_BUFFER_PADDING_SIZE_def AV_PKT_FLAG_KEY_def TSMM_SAMPLE_EXT_CLEANPOINT_def

lemmas demo_ffmpeg_defs = demo_decode_video_def demo_picture_size_def demo_picture_def
  demo_decode_audio_def demo_avcodec_def demo_mdecoder_def greedy_decode_audio_def
  greedy_avcodec_def

lemma audio_nothing_decoded:
  fixes mdecoder :: "'c TSMFFFmpegDecoder"
  assumes kind: "media_type mdecoder = AVMEDIA_TYPE_AUDIO"
    and rejected: "n = 0 \<or> fst (first_audio_answer lib mdecoder payload n) \<le> 0 \<or>
        fst (snd (first_audio_answer lib mdecoder payload n)) \<le> 0"
  shows "\<exists>m'. tsmf_ffmpeg_decode lib mdecoder payload n extensions = Some (0, m') \<and>
           fst (tsmf_ffmpeg_get_decoded_data m') = (None, 0)"
proof -
  define m1 where "m1 =
    (mdecoder\<lparr>decoded_data := Some [], decoded_size := 0,
               decoded_size_max :=
                 (if decoded_size_max mdecoder = 0 then AVCODEC_MAX_AUDIO_FRAME_SIZE
                  else decoded_size_max mdecoder)\<rparr>)"
  define pad_data where
    "pad_data = take (unat n) payload @ replicate FF_INPUT_BUFFER_PADDING_SIZE 0"
  define m2 where "m2 = ensure_space m1"
  have entry: "(if decoded_size_max (mdecoder\<lparr>decoded_data := None, decoded_size := 0\<rparr>) = 0
       then mdecoder\<lparr>decoded_data := None, decoded_size := 0,
                      decoded_size_max := AVCODEC_MAX_AUDIO_FRAME_SIZE\<rparr>
       else mdecoder\<lparr>decoded_data := None, decoded_size := 0\<rparr>)\<lparr>decoded_data := Some []\<rparr> = m1"
    by (simp add: m1_def)
  have decode: "tsmf_ffmpeg_decode lib mdecoder payload n extensions =
      (case decode_audio_loop lib m1 pad_data n of
         None \<Rightarrow> None
       | Some m \<Rightarrow> Some (0, if decoded_size m = 0 then m\<lparr>decoded_data := None\<rparr> else m))"
    using kind entry
    by (simp add: tsmf_ffmpeg_decode_def tsmf_ffmpeg_decode_audio_def Let_def pad_data_def
        AVMEDIA_TYPE_VIDEO_def AVMEDIA_TYPE_AUDIO_def)
  have zero: "decoded_size m1 = 0" "decoded_size m2 = 0"
    by (simp_all add: m1_def m2_def ensure_space_def)
  obtain len got out c1 where
    answer: "avcodec_decode_audio3 lib (codec_context m2)
        (sint (decoded_size_max m2 - decoded_size m2)) pad_data n = ((len, got, out), c1)"
    by (metis prod_cases3 surj_pair)
  then have first: "first_audio_answer lib mdecoder payload n = (len, got, out)"
    by (simp add: first_audio_answer_def Let_def m1_def [symmetric] m2_def [symmetric]
        pad_data_def [symmetric])
  have loop: "decode_audio_loop lib m1 pad_data n =
      Some (if n = 0 then m1 else m2\<lparr>codec_context := c1\<rparr>)"
    using rejected first
    by (subst decode_audio_loop.simps)
       (auto simp: Let_def m2_def [symmetric] answer)
  show ?thesis
    using zero by (simp add: decode loop tsmf_ffmpeg_get_decoded_data_def)
qed

text \<open>
  Claim C7, as amended. The video path always returns, and when it returns 0 the call of
  \<open>tsmf_ffmpeg_get_decoded_data\<close> that follows returns a buffer that is not null. The
  audio path returns 0 whenever it returns, and the call that follows returns a buffer
  that is not null exactly when the decoded size it reports is not zero. When nothing was
  decoded, because the payload is empty or the library rejects the input at its first
  call, the audio path still returns 0 and the call that follows returns a null buffer of
  size 0. The audio path returns whenever the library never reports more bytes consumed
  than it was given.
\<close>

theorem decode_ok_buffer:
  fixes mdecoder :: "'c TSMFFFmpegDecoder"
  shows
  "(media_type mdecoder = AVMEDIA_TYPE_VIDEO \<longrightarrow>
      tsmf_ffmpeg_decode lib mdecoder payload n extensions \<noteq> None) \<and>
   (media_type mdecoder = AVMEDIA_TYPE_VIDEO \<and>
    tsmf_ffmpeg_decode lib mdecoder payload n extensions = Some (0, m') \<longrightarrow>
      fst (fst (tsmf_ffmpeg_get_decoded_data m')) \<noteq> None) \<and>
   (media_type mdecoder = AVMEDIA_TYPE_AUDIO \<and>
    tsmf_ffmpeg_decode lib mdecoder payload n extensions = Some (ret, m') \<longrightarrow>
      ret = 0 \<and>
      (fst (fst (tsmf_ffmpeg_get_decoded_data m')) \<noteq> None) = (decoded_size m' \<noteq> 0) \<and>
      snd (fst (tsmf_ffmpeg_get_decoded_data m')) = decoded_size m') \<and>
   (media_type mdecoder = AVMEDIA_TYPE_AUDIO \<and>
    (n = 0 \<or> fst (first_audio_answer lib mdecoder payload n) \<le> 0 \<or>
     fst (snd (first_audio_answer lib mdecoder payload n)) \<le> 0) \<longrightarrow>
      (\<exists>m''. tsmf_ffmpeg_decode lib mdecoder payload n extensions = Some (0, m'') \<and>
             fst (tsmf_ffmpeg_get_decoded_data m'') = (None, 0))) \<and>
   (media_type mdecoder = AVMEDIA_TYPE_AUDIO \<and>
    (\<forall>c room src k. k \<noteq> 0 \<longrightarrow>
       fst (fst (avcodec_decode_audio3 lib c room src k)) \<le> uint k) \<longrightarrow>
      tsmf_ffmpeg_decode lib mdecoder payload n extensions \<noteq> None)"
proof -
  have video_returns: "tsmf_ffmpeg_decode lib mdecoder payload n extensions \<noteq> None"
    if "media_type mdecoder = AVMEDIA_TYPE_VIDEO"
    using that by (simp add: tsmf_ffmpeg_decode_def Let_def)
  have video_buffer: "fst (fst (tsmf_ffmpeg_get_decoded_data m')) \<noteq> None"
    if "media_type mdecoder = AVMEDIA_TYPE_VIDEO \<and>
        tsmf_ffmpeg_decode lib mdecoder payload n extensions = Some (0, m')"
  proof -
    from that have "tsmf_ffmpeg_decode_video lib
        (mdecoder\<lparr>decoded_data := None, decoded_size := 0\<rparr>) payload n extensions = (0, m')"
      by (auto simp: tsmf_ffmpeg_decode_def Let_def)
    then have "decoded_data m' \<noteq> None"
      by (auto simp: tsmf_ffmpeg_decode_video_def Let_def split: prod.splits if_splits)
    then show ?thesis
      by (simp add: tsmf_ffmpeg_get_decoded_data_def)
  qed
  have audio_buffer: "ret = 0 \<and>
      (fst (fst (tsmf_ffmpeg_get_decoded_data m')) \<noteq> None) = (decoded_size m' \<noteq> 0) \<and>
      snd (fst (tsmf_ffmpeg_get_decoded_data m')) = decoded_size m'"
    if h: "media_type mdecoder = AVMEDIA_TYPE_AUDIO \<and>
        tsmf_ffmpeg_decode lib mdecoder payload n extensions = Some (ret, m')"
  proof -
    define m0 where "m0 = mdecoder\<lparr>decoded_data := None, decoded_size := 0\<rparr>"
    define m1 where "m1 =
      (if decoded_size_max m0 = 0
       then m0\<lparr>decoded_size_max := AVCODEC_MAX_AUDIO_FRAME_SIZE\<rparr> else m0)
      \<lparr>decoded_data := Some []\<rparr>"
    define pad_data where
      "pad_data = take (unat n) payload @ replicate FF_INPUT_BUFFER_PADDING_SIZE 0"
    from h have audio: "tsmf_ffmpeg_decode_audio lib m0 payload n extensions = Some (ret, m')"
      by (auto simp: tsmf_ffmpeg_decode_def Let_def m0_def AVMEDIA_TYPE_VIDEO_def
          AVMEDIA_TYPE_AUDIO_def)
    then obtain m2 where loop: "decode_audio_loop lib m1 pad_data n = Some m2"
      and ret: "ret = 0"
      and m': "m' = (if decoded_size m2 = 0 then m2\<lparr>decoded_data := None\<rparr> else m2)"
      by (auto simp: tsmf_ffmpeg_decode_audio_def Let_def m1_def pad_data_def
          split: option.splits)
    have "decoded_data m1 \<noteq> None" by (simp add: m1_def)
    with decode_audio_loop_keeps_buffer [OF loop] have "decoded_data m2 \<noteq> None"
      by simp
    with m' have "(decoded_data m' \<noteq> None) = (decoded_size m' \<noteq> 0)"
      by simp
    with ret show ?thesis
      by (simp add: tsmf_ffmpeg_get_decoded_data_def)
  qed
  have audio_nothing: "\<exists>m''. tsmf_ffmpeg_decode lib mdecoder payload n extensions = Some (0, m'') \<and>
             fst (tsmf_ffmpeg_get_decoded_data m'') = (None, 0)"
    if "media_type mdecoder = AVMEDIA_TYPE_AUDIO \<and>
        (n = 0 \<or> fst (first_audio_answer lib mdecoder payload n) \<le> 0 \<or>
         fst (snd (first_audio_answer lib mdecoder payload n)) \<le> 0)"
    using that by (intro audio_nothing_decoded) simp_all
  have audio_returns: "tsmf_ffmpeg_decode lib mdecoder payload n extensions \<noteq> None"
    if h: "media_type mdecoder = AVMEDIA_TYPE_AUDIO \<and>
        (\<forall>c room src k. k \<noteq> 0 \<longrightarrow>
           fst (fst (avcodec_decode_audio3 lib c room src k)) \<le> uint k)"
  proof -
    from h have "decode_audio_loop lib m1 src k \<noteq> None" for m1 src k
      by (intro decode_audio_loop_returns) simp
    then have "tsmf_ffmpeg_decode_audio lib m0 payload n extensions \<noteq> None" for m0
      by (cases "decoded_size_max m0 = 0")
         (simp_all add: tsmf_ffmpeg_decode_audio_def Let_def split: option.splits)
    with h show ?thesis
      by (simp add: tsmf_ffmpeg_decode_def Let_def AVMEDIA_TYPE_VIDEO_def
          AVMEDIA_TYPE_AUDIO_def)
  qed
  from video_returns video_buffer audio_buffer audio_nothing audio_returns show ?thesis
    by blast
qed


theorem decode_ok_buffer_witness:
  "tsmf_ffmpeg_decode demo_avcodec (demo_mdecoder AVMEDIA_TYPE_VIDEO) [1, 2] 2 0 \<noteq> None \<and>
   fst (tsmf_ffmpeg_get_decoded_data (snd (the
     (tsmf_ffmpeg_decode demo_avcodec (demo_mdecoder AVMEDIA_TYPE_VIDEO) [1, 2] 2 0)))) =
     (Some [16, 16, 16, 16, 128, 128], 6) \<and>
   tsmf_ffmpeg_decode demo_avcodec (demo_mdecoder AVMEDIA_TYPE_AUDIO) [1, 2] 2 0 \<noteq> None \<and>
   fst (tsmf_ffmpeg_get_decoded_data (snd (the
     (tsmf_ffmpeg_decode demo_avcodec (demo_mdecoder AVMEDIA_TYPE_AUDIO) [1, 2] 2 0)))) =
     (Some [1, 1, 2, 2], 4) \<and>
   fst (tsmf_ffmpeg_get_decoded_data (snd (the
     (tsmf_ffmpeg_decode greedy_avcodec (demo_mdecoder AVMEDIA_TYPE_AUDIO) [5] 1 0)))) =
     (Some [7, 7], 2) \<and>
   fst (tsmf_ffmpeg_get_decoded_data (snd (the
     (tsmf_ffmpeg_decode demo_avcodec (demo_mdecoder AVMEDIA_TYPE_AUDIO) [] 0 0)))) =
     (None, 0)"
proof -
  let ?video = "demo_mdecoder AVMEDIA_TYPE_VIDEO"
  let ?audio = "demo_mdecoder AVMEDIA_TYPE_AUDIO"
  let ?mv = "?video\<lparr>codec_context := 1, decoded_size := 6,
      decoded_data := Some [16, 16, 16, 16, 128, 128]\<rparr>"
  let ?ma = "?audio\<lparr>codec_context := 2, decoded_size := 4, decoded_size_max := 384000,
      decoded_data := Some [1, 1, 2, 2]\<rparr>"
  let ?mg = "?audio\<lparr>codec_context := 1, decoded_size := 2, decoded_size_max := 384000,
      decoded_data := Some [7, 7]\<rparr>"
  have kv: "media_type ?video = AVMEDIA_TYPE_VIDEO"
    by (simp add: demo_mdecoder_def)
  have ka: "media_type ?audio = AVMEDIA_TYPE_AUDIO"
    by (simp add: demo_mdecoder_def)
  have v: "tsmf_ffmpeg_decode demo_avcodec ?video [1, 2] 2 0 = Some (0, ?mv)"
    by (simp add: ffmpeg_defs demo_ffmpeg_defs)
  have a: "tsmf_ffmpeg_decode demo_avcodec ?audio [1, 2] 2 0 = Some (0, ?ma)"
    by (simp add: ffmpeg_defs demo_ffmpeg_defs decode_audio_loop.simps)
  have g: "tsmf_ffmpeg_decode greedy_avcodec ?audio [5] 1 0 = Some (0, ?mg)"
    by (simp add: ffmpeg_defs demo_ffmpeg_defs decode_audio_loop.simps)
  have within: "\<forall>c room src k. k \<noteq> 0 \<longrightarrow>
      fst (fst (avcodec_decode_audio3 demo_avcodec c room src k)) \<le> uint k"
  proof (intro allI impI)
    fix c :: nat and room :: int and src :: "uint8 list" and k :: uint32
    assume "k \<noteq> 0"
    then have "1 \<le> uint k"
      using uint_ge_0 [of k] uint_0_iff [of k] by linarith
    then show "fst (fst (avcodec_decode_audio3 demo_avcodec c room src k)) \<le> uint k"
      by (simp add: demo_avcodec_def demo_decode_audio_def)
  qed
  have p1: "tsmf_ffmpeg_decode demo_avcodec ?video [1, 2] 2 0 \<noteq> None"
    using decode_ok_buffer [of ?video demo_avcodec "[1, 2]" 2 0 ?mv 0] kv
    by blast
  have "fst (fst (tsmf_ffmpeg_get_decoded_data ?mv)) \<noteq> None"
    using decode_ok_buffer [of ?video demo_avcodec "[1, 2]" 2 0 ?mv 0] kv v
    by blast
  then have p2: "fst (tsmf_ffmpeg_get_decoded_data (snd (the
      (tsmf_ffmpeg_decode demo_avcodec ?video [1, 2] 2 0)))) =
      (Some [16, 16, 16, 16, 128, 128], 6)"
    by (simp add: v tsmf_ffmpeg_get_decoded_data_def)
  have p3: "tsmf_ffmpeg_decode demo_avcodec ?audio [1, 2] 2 0 \<noteq> None"
    using decode_ok_buffer [of ?audio demo_avcodec "[1, 2]" 2 0 ?ma 0] ka within
    by blast
  have "(fst (fst (tsmf_ffmpeg_get_decoded_data ?ma)) \<noteq> None) = (decoded_size ?ma \<noteq> 0) \<and>
      snd (fst (tsmf_ffmpeg_get_decoded_data ?ma)) = decoded_size ?ma"
    using decode_ok_buffer [of ?audio demo_avcodec "[1, 2]" 2 0 ?ma 0] ka a
    by blast
  then have p4: "fst (tsmf_ffmpeg_get_decoded_data (snd (the
      (tsmf_ffmpeg_decode demo_avcodec ?audio [1, 2] 2 0)))) = (Some [1, 1, 2, 2], 4)"
    by (simp add: a tsmf_ffmpeg_get_decoded_data_def)
  have "(fst (fst (tsmf_ffmpeg_get_decoded_data ?mg)) \<noteq> None) = (decoded_size ?mg \<noteq> 0) \<and>
      snd (fst (tsmf_ffmpeg_get_decoded_data ?mg)) = decoded_size ?mg"
    using decode_ok_buffer [of ?audio greedy_avcodec "[5]" 1 0 ?mg 0] ka g
    by blast
  then have p5: "fst (tsmf_ffmpeg_get_decoded_data (snd (the
      (tsmf_ffmpeg_decode greedy_avcodec ?audio [5] 1 0)))) = (Some [7, 7], 2)"
    by (simp add: g tsmf_ffmpeg_get_decoded_data_def)
  have "\<exists>m''. tsmf_ffmpeg_decode demo_avcodec ?audio [] 0 0 = Some (0, m'') \<and>
      fst (tsmf_ffmpeg_get_decoded_data m'') = (None, 0)"
    using decode_ok_buffer [of ?audio demo_avcodec "[]" 0 0 ?ma 0] ka
    by blast
  then have p6: "fst (tsmf_ffmpeg_get_decoded_data (snd (the
      (tsmf_ffmpeg_decode demo_avcodec ?audio [] 0 0)))) = (None, 0)"
    by auto
  from p1 p2 p3 p4 p5 p6 show ?thesis by (intro conjI)
qed

text \<open>
  Claim C7 as stated fails on the audio path for an input the library rejects at once:
  \<open>tsmf_ffmpeg_decode\<close> returns 0, and \<open>tsmf_ffmpeg_get_decoded_data\<close> returns
  a null buffer of size 0.
\<close>

theorem audio_decode_ok_without_buffer_counterexample:
  "tsmf_ffmpeg_decode demo_avcodec (demo_mdecoder AVMEDIA_TYPE_AUDIO) [0, 0] 2 0 =
     Some (0, (demo_mdecoder AVMEDIA_TYPE_AUDIO)\<lparr>decoded_size_max := 192000\<rparr>) \<and>
   fst (tsmf_ffmpeg_get_decoded_data (snd (the
     (tsmf_ffmpeg_decode demo_avcodec (demo_mdecoder AVMEDIA_TYPE_AUDIO) [0, 0] 2 0)))) =
     (None, 0)"
  by (simp add: ffmpeg_defs demo_ffmpeg_defs decode_audio_loop.simps)

end
